theory Spec2Isabelle
  imports Main
begin

section \<open>Configuration window: the camera coordinator (component ConfigWindow)\<close>

text \<open>
  The component keeps its state in React state variables and reacts to UI intents,
  to socket events and to browser timers. Each handler of the source becomes a function
  from the component state to the component state. What a handler does to the outside
  (a command emitted on the socket, a notification, the call of the close callback, the
  write to the settings store) is appended to the field \<open>cw_trace\<close>, in the order in
  which the source performs it.

  Only the fields of \<open>AppConfig\<close> that the coordinator reads or writes are kept:
  \<open>advanced.cameraId\<close>, \<open>advanced.model\<close> and \<open>simulation.enabled\<close>. A configuration
  comes from the settings store through an unchecked cast (\<open>settings as AppConfig\<close> in
  lib/firestore-settings.ts), so a section may be missing: the source reads the camera id
  as \<open>config.advanced?.cameraId || 0\<close>, and reading \<open>pendingConfig.simulation.enabled\<close>
  raises a TypeError when the stored document has no \<open>simulation\<close> section.
\<close>

record app_config =
  cameraId :: "int option"
  model :: string
  simulationEnabled :: "bool option"

text \<open>\<open>DEFAULT_CONFIG\<close> of lib/constants.ts, restricted to the same fields.\<close>

definition DEFAULT_CONFIG :: app_config where
  "DEFAULT_CONFIG = \<lparr>cameraId = Some 0, model = ''yolov5s'', simulationEnabled = Some False\<rparr>"

text \<open>
  The commands that the handlers below put on the socket: \<open>kill_camera_for_config\<close> and
  \<open>initialize_camera\<close> with \<open>socket.socket.emit\<close>, and \<open>toggle_simulation\<close> through
  \<open>socket.toggleSimulation\<close>, which the hook useSocket defines as
  \<open>socket?.emit('toggle_simulation', { enabled })\<close>.
\<close>

datatype command =
    KillCameraForConfig
  | InitializeCamera int
  | ToggleSimulation bool

text \<open>
  The commands that address the camera device. \<open>toggle_simulation\<close> switches the mode of
  the detection backend and names no device.
\<close>

fun cameraCommand :: "command \<Rightarrow> bool" where
  "cameraCommand KillCameraForConfig = True"
| "cameraCommand (InitializeCamera c) = True"
| "cameraCommand (ToggleSimulation b) = False"

text \<open>
  The texts handed to \<open>socket.showNotification\<close>. A constructor stands for one literal
  of the source; its argument is the value interpolated into the template.
  \<^item> \<open>MsgInitializedManual id\<close>: "Camera id berhasil diinisialisasi - silakan nyalakan kamera secara manual"
  \<^item> \<open>MsgRestored id\<close>: "Camera id berhasil dikembalikan"
  \<^item> \<open>MsgInitialized id\<close>: "Camera id berhasil diinisialisasi"
  \<^item> \<open>MsgInitFailed err\<close>: "Gagal menginisialisasi kamera: err"
  \<^item> \<open>MsgSettingsSaved\<close>: "Pengaturan berhasil disimpan"
  \<^item> \<open>MsgInitTimeout\<close>: "Timeout menginisialisasi kamera - coba lagi"
  \<^item> \<open>MsgSocketUnavailable\<close>: "Koneksi socket tidak tersedia"
  \<^item> \<open>MsgSaveFailed\<close>: "Gagal menyimpan pengaturan"
  \<^item> \<open>MsgSaveError\<close>: "Terjadi kesalahan saat menyimpan pengaturan"
  \<^item> \<open>MsgCloseRestoreTimeout\<close>: "Timeout mengembalikan kamera - modal ditutup anyway"
  \<^item> \<open>MsgTabRestoreTimeout\<close>: "Timeout mengembalikan kamera - tab berubah anyway"
\<close>

datatype notification =
    MsgInitializedManual "int option"
  | MsgRestored "int option"
  | MsgInitialized "int option"
  | MsgInitFailed "string option"
  | MsgSettingsSaved
  | MsgInitTimeout
  | MsgSocketUnavailable
  | MsgSaveFailed
  | MsgSaveError
  | MsgCloseRestoreTimeout
  | MsgTabRestoreTimeout

datatype cw_effect =
    Emit command
  | ShowNotification notification
  | HandleClose
  | SetCameraEnabled bool
  | SaveConfig app_config
  | LoadModelsAndCameras

text \<open>
  The three callbacks that the source passes to \<open>setTimeout\<close> with a delay of 30000 ms:
  in \<open>handleSaveSettings\<close>, in \<open>handleConfigClose\<close> and in \<open>handleTabChange\<close> (which
  closes over the tab it was asked to switch to).
\<close>

datatype timeout_action =
    SaveInitTimeout
  | CloseRestoreTimeout
  | TabRestoreTimeout string

text \<open>
  The state of the component. \<open>socketPresent\<close> is the truth value of \<open>socket.socket\<close>,
  \<open>viewOpen\<close> is \<open>open\<close>, \<open>canSetCameraEnabled\<close> is the truth value of
  \<open>socket.setCameraEnabled\<close>. \<open>cw_timers\<close> holds the callbacks armed with
  \<open>setTimeout\<close> and not yet run or cleared, each under its timer id. The timer ids of
  a browser are positive, so a recorded id always counts as true where the source tests
  \<open>if (initializationTimeout)\<close>.
\<close>

record config_window =
  socketPresent :: bool
  canSetCameraEnabled :: bool
  viewOpen :: bool
  config :: "app_config option"
  pendingConfig :: app_config
  hasChanges :: bool
  isInitializingCamera :: bool
  isRestoringCamera :: bool
  isClosingModal :: bool
  pendingTabChange :: "string option"
  initializationTimeout :: "nat option"
  previousCameraId :: int
  selectedCameraId :: int
  activeTab :: string
  cw_timers :: "(nat \<times> timeout_action) list"
  nextTimerId :: nat
  cw_trace :: "cw_effect list"

subsection \<open>Primitives\<close>

definition perform :: "cw_effect \<Rightarrow> config_window \<Rightarrow> config_window" where
  "perform e s = s\<lparr>cw_trace := cw_trace s @ [e]\<rparr>"

definition showNotification :: "notification \<Rightarrow> config_window \<Rightarrow> config_window" where
  "showNotification m s = perform (ShowNotification m) s"

definition toggleSimulation :: "bool \<Rightarrow> config_window \<Rightarrow> config_window" where
  "toggleSimulation enabled s =
     (if socketPresent s then perform (Emit (ToggleSimulation enabled)) s else s)"

text \<open>
  \<open>handleClose\<close> is \<open>onClose || (() => setInternalOpen(false))\<close>; the page passes
  \<open>onClose = () => setShowSettings(false)\<close> and \<open>isOpen = showSettings\<close>. Either way the
  call makes \<open>open\<close> false.
\<close>

definition handleClose :: "config_window \<Rightarrow> config_window" where
  "handleClose s = perform HandleClose (s\<lparr>viewOpen := False\<rparr>)"

text \<open>
  \<open>const timeoutId = setTimeout(callback, 30000); setInitializationTimeout(timeoutId)\<close>.
  The state variable is overwritten; a timer armed earlier stays armed.
\<close>

definition armInitializationTimeout :: "timeout_action \<Rightarrow> config_window \<Rightarrow> config_window" where
  "armInitializationTimeout a s =
     s\<lparr>cw_timers := (nextTimerId s, a) # cw_timers s,
       initializationTimeout := Some (nextTimerId s),
       nextTimerId := Suc (nextTimerId s)\<rparr>"

definition clearTimeout :: "nat \<Rightarrow> config_window \<Rightarrow> config_window" where
  "clearTimeout t s = s\<lparr>cw_timers := filter (\<lambda>p. fst p \<noteq> t) (cw_timers s)\<rparr>"

text \<open>A JavaScript string or null used as a condition: null and the empty string are false.\<close>

fun truthy :: "string option \<Rightarrow> bool" where
  "truthy None = False"
| "truthy (Some t) = (t \<noteq> [])"

text \<open>\<open>config.advanced?.cameraId || 0\<close>: an absent id and the id 0 both give 0.\<close>

fun cameraIdOrZero :: "int option \<Rightarrow> int" where
  "cameraIdOrZero None = 0"
| "cameraIdOrZero (Some n) = n"

subsection \<open>Opening the view\<close>

text \<open>
  The effect with dependencies \<open>[open, config, loadModelsAndCameras]\<close>. It runs after a
  render in which one of them changed. \<open>openView\<close> is the page setting \<open>showSettings\<close>
  to true, followed by that effect when the view was closed before.
\<close>

definition openEffect :: "config_window \<Rightarrow> config_window" where
  "openEffect s =
     (if viewOpen s then
        (case config s of
           Some c \<Rightarrow>
             let currentCameraId = cameraIdOrZero (cameraId c);
                 s1 = s\<lparr>previousCameraId := currentCameraId, selectedCameraId := currentCameraId\<rparr>;
                 s2 = (if socketPresent s then perform (Emit KillCameraForConfig) s1 else s1);
                 s3 = s2\<lparr>pendingConfig := c, hasChanges := False\<rparr>
             in perform LoadModelsAndCameras s3
         | None \<Rightarrow>
             let s1 = s\<lparr>previousCameraId := 0, selectedCameraId := 0\<rparr>;
                 s2 = (if socketPresent s then perform (Emit KillCameraForConfig) s1 else s1)
             in s2\<lparr>pendingConfig := DEFAULT_CONFIG, hasChanges := False\<rparr>)
      else s)"

definition openView :: "config_window \<Rightarrow> config_window" where
  "openView s = (if viewOpen s then s else openEffect (s\<lparr>viewOpen := True\<rparr>))"

text \<open>
  The socket object. useSocket starts with \<open>socket = null\<close>; its mount effects create
  the connection and call \<open>setSocket(socketInstance)\<close>, and nothing sets the state to null
  again. \<open>loadAvailableModels\<close> and \<open>loadAvailableCameras\<close> are callbacks on
  \<open>[socket.socket]\<close>, so \<open>loadModelsAndCameras\<close>, a dependency of the opening effect, is
  a new function in the render that first shows the socket: the opening effect runs
  again in that render.
\<close>

definition socketCreated :: "config_window \<Rightarrow> config_window" where
  "socketCreated s = (if socketPresent s then s else openEffect (s\<lparr>socketPresent := True\<rparr>))"

subsection \<open>The camera_initialized event\<close>

record camera_event =
  success :: bool
  camera_id :: "int option"
  ev_error :: "string option"

text \<open>
  \<open>handleCameraInitialized\<close>. The handler is registered again whenever \<open>socket\<close> or
  \<open>pendingConfig\<close> changes, and useSocket returns a new object at every render, so the
  handler that receives an event closes over the flags of the latest render: it reads the
  state in which the event arrives.
\<close>

definition handleCameraInitialized :: "camera_event \<Rightarrow> config_window \<Rightarrow> config_window" where
  "handleCameraInitialized d s =
     (let wasClosing = isClosingModal s;
          wasRestoring = isRestoringCamera s;
          targetTab = pendingTabChange s;
          s1 = (case initializationTimeout s of
                  Some t \<Rightarrow> (clearTimeout t s)\<lparr>initializationTimeout := None\<rparr>
                | None \<Rightarrow> s);
          s2 = s1\<lparr>isInitializingCamera := False, isRestoringCamera := False,
                  isClosingModal := False, pendingTabChange := None\<rparr>
      in if success d then
           (if wasClosing then
              let s3 = showNotification (MsgInitializedManual (camera_id d)) s2;
                  s4 = (if canSetCameraEnabled s then perform (SetCameraEnabled False) s3 else s3)
              in handleClose s4
            else if wasRestoring then
              (if truthy targetTab then
                 (showNotification (MsgRestored (camera_id d)) s2)\<lparr>activeTab := the targetTab\<rparr>
               else handleClose (showNotification (MsgRestored (camera_id d)) s2))
            else showNotification (MsgInitialized (camera_id d)) s2)
         else
           (let s3 = showNotification (MsgInitFailed (ev_error d)) s2
            in if wasClosing then handleClose s3
               else if wasRestoring \<and> truthy targetTab then s3\<lparr>activeTab := the targetTab\<rparr>
               else if wasRestoring then handleClose s3
               else s3))"

subsection \<open>Saving\<close>

text \<open>
  \<open>handleSaveSettings\<close>. The argument is what \<open>await saveConfig(...)\<close> resolves to.
  \<open>saveConfig\<close> of the settings provider never rejects: it returns what \<open>saveSettings\<close>
  returns, false after any failure of the store, and on success it first calls
  \<open>setConfig(newConfig)\<close>. The only step of the \<open>try\<close> block that can raise is the read
  of \<open>pendingConfig.simulation.enabled\<close>. The part after the \<open>await\<close> uses
  \<open>selectedCameraId\<close> and \<open>socket.socket\<close> as they were when the handler was called.
\<close>

definition handleSaveSettings :: "bool \<Rightarrow> config_window \<Rightarrow> config_window" where
  "handleSaveSettings saved s =
     (let s1 = s\<lparr>isClosingModal := True, isInitializingCamera := True\<rparr>
      in case simulationEnabled (pendingConfig s) of
           None \<Rightarrow>
             showNotification MsgSaveError
               (s1\<lparr>isClosingModal := False, isInitializingCamera := False\<rparr>)
         | Some enabled \<Rightarrow>
             (let s2 = toggleSimulation enabled s1;
                  configWithSelectedCamera =
                    (pendingConfig s)\<lparr>cameraId := Some (selectedCameraId s)\<rparr>;
                  s3 = perform (SaveConfig configWithSelectedCamera) s2
              in if saved then
                   (let s4 = showNotification MsgSettingsSaved
                               (s3\<lparr>config := Some configWithSelectedCamera, hasChanges := False\<rparr>)
                    in if socketPresent s then
                         armInitializationTimeout SaveInitTimeout
                           (perform (Emit (InitializeCamera (selectedCameraId s))) s4)
                       else showNotification MsgSocketUnavailable
                              (s4\<lparr>isClosingModal := False, isInitializingCamera := False\<rparr>))
                 else
                   showNotification MsgSaveFailed
                     (s3\<lparr>isClosingModal := False, isInitializingCamera := False\<rparr>)))"

subsection \<open>Closing, selecting a camera, changing the tab\<close>

definition handleConfigClose :: "config_window \<Rightarrow> config_window" where
  "handleConfigClose s =
     (if selectedCameraId s \<noteq> previousCameraId s then
        (let s1 = s\<lparr>isRestoringCamera := True\<rparr>
         in if socketPresent s then
              armInitializationTimeout CloseRestoreTimeout
                (perform (Emit (InitializeCamera (previousCameraId s))) s1)
            else s1)
      else handleClose s)"

definition handleCameraSelection :: "int \<Rightarrow> config_window \<Rightarrow> config_window" where
  "handleCameraSelection c s = s\<lparr>selectedCameraId := c\<rparr>"

definition handleTabChange :: "string \<Rightarrow> config_window \<Rightarrow> config_window" where
  "handleTabChange newTab s =
     (if activeTab s = ''model'' \<and> newTab \<noteq> ''model''
         \<and> selectedCameraId s \<noteq> previousCameraId s then
        (let s1 = s\<lparr>isRestoringCamera := True, pendingTabChange := Some newTab,
                     selectedCameraId := previousCameraId s\<rparr>
         in if socketPresent s then
              armInitializationTimeout (TabRestoreTimeout newTab)
                (perform (Emit (InitializeCamera (previousCameraId s))) s1)
            else s1)
      else s\<lparr>activeTab := newTab\<rparr>)"

subsection \<open>The 30 second timers\<close>

fun timeoutCallback :: "timeout_action \<Rightarrow> config_window \<Rightarrow> config_window" where
  "timeoutCallback SaveInitTimeout s =
     (showNotification MsgInitTimeout
        (s\<lparr>isClosingModal := False, isInitializingCamera := False\<rparr>))
       \<lparr>initializationTimeout := None\<rparr>"
| "timeoutCallback CloseRestoreTimeout s =
     (showNotification MsgCloseRestoreTimeout
        (handleClose (s\<lparr>isRestoringCamera := False\<rparr>)))
       \<lparr>initializationTimeout := None\<rparr>"
| "timeoutCallback (TabRestoreTimeout newTab) s =
     (showNotification MsgTabRestoreTimeout
        (s\<lparr>isRestoringCamera := False, pendingTabChange := None, activeTab := newTab\<rparr>))
       \<lparr>initializationTimeout := None\<rparr>"

text \<open>The browser runs the callback of an armed timer once; a cleared timer never runs.\<close>

definition fireTimer :: "nat \<Rightarrow> config_window \<Rightarrow> config_window" where
  "fireTimer t s =
     (case map_of (cw_timers s) t of
        None \<Rightarrow> s
      | Some a \<Rightarrow> timeoutCallback a (clearTimeout t s))"

subsection \<open>Renders\<close>

text \<open>
  The effect that registers the socket handlers has the dependencies
  \<open>[socket, pendingConfig]\<close>, and useSocket returns a new object at every render, so the
  effect is torn down and set up again after every render of the component. Its cleanup
  ends with \<open>if (initializationTimeout) clearTimeout(initializationTimeout)\<close>, under the
  comment "Clean up timeout on unmount"; the variable is the one of the render that set the
  effect up. \<open>rerender shown new\<close> is a render that shows the state \<open>new\<close> when the
  render before it showed \<open>shown\<close>: it clears the timer that \<open>shown\<close> recorded.
\<close>

definition rerender :: "config_window \<Rightarrow> config_window \<Rightarrow> config_window" where
  "rerender shown new =
     (case initializationTimeout shown of
        None \<Rightarrow> new
      | Some t \<Rightarrow> clearTimeout t new)"

text \<open>
  A save, from the click to the last render that it causes. The first render after the
  handler shows the id of the new timer. After a successful write \<open>config\<close> is a new
  object, so the effect on \<open>[open, config, loadModelsAndCameras]\<close> runs once more. Every
  branch of the handler has called \<open>showNotification\<close>, which useSocket defines as
  \<open>setNotification(message); setTimeout(() => setNotification(null), 3000)\<close> on state of
  this component: the component renders again after 3000 ms at the latest.
\<close>

definition saveFlow :: "bool \<Rightarrow> config_window \<Rightarrow> config_window" where
  "saveFlow saved s =
     (let a = handleSaveSettings saved s;
          r1 = rerender s a;
          b = (if saved \<and> simulationEnabled (pendingConfig s) \<noteq> None then openEffect r1 else r1)
      in rerender r1 b)"

text \<open>The commands among the effects of a trace, in order, and those for the camera.\<close>

fun commandsOf :: "cw_effect list \<Rightarrow> command list" where
  "commandsOf [] = []"
| "commandsOf (Emit c # es) = c # commandsOf es"
| "commandsOf (e # es) = commandsOf es"

definition cameraCommandsOf :: "cw_effect list \<Rightarrow> command list" where
  "cameraCommandsOf es = filter cameraCommand (commandsOf es)"

text \<open>
  No acquisition is in flight: no loading flag is set, no tab change is deferred and no
  timer is recorded. Each of the three timeout callbacks of the source leaves the
  component here when its own operation was the only one pending.
\<close>

definition quiescent :: "config_window \<Rightarrow> bool" where
  "quiescent s \<longleftrightarrow>
     \<not> isClosingModal s \<and> \<not> isRestoringCamera s \<and> \<not> isInitializingCamera s
     \<and> pendingTabChange s = None \<and> initializationTimeout s = None"

text \<open>A view that is open on the model tab with camera 0 committed and camera 1 staged.\<close>

definition stagedView :: config_window where
  "stagedView =
     \<lparr>socketPresent = True, canSetCameraEnabled = True, viewOpen = True,
      config = Some DEFAULT_CONFIG, pendingConfig = DEFAULT_CONFIG, hasChanges = False,
      isInitializingCamera = False, isRestoringCamera = False, isClosingModal = False,
      pendingTabChange = None, initializationTimeout = None,
      previousCameraId = 0, selectedCameraId = 1, activeTab = ''model'',
      cw_timers = [], nextTimerId = 1, cw_trace = []\<rparr>"

text \<open>
  The same view after the user has closed it and the restore command was never
  acknowledged, so that the 30 second timer with id 1 has run; the same view 30 seconds
  after a save whose store write succeeded and whose command was never acknowledged; an
  acknowledgement that arrives late; and a closed view in a window whose socket does not
  exist yet, as between the first render and the mount effects of useSocket.
\<close>

definition closeTimedOut :: config_window where
  "closeTimedOut = fireTimer 1 (rerender stagedView (handleConfigClose stagedView))"

definition saveUnacknowledged :: config_window where
  "saveUnacknowledged = fireTimer 1 (saveFlow True stagedView)"

definition lateAck :: camera_event where
  "lateAck = \<lparr>success = True, camera_id = Some 0, ev_error = None\<rparr>"


section \<open>Checkout dialog: the payment session (component CheckoutModal)\<close>

datatype payment_status = Idle | Creating | Pending | Success | Failed | Expired | Cancelled

record payment_data =
  transaction_id :: string
  order_id :: string
  snap_token :: string
  payment_url :: string
  qr_code_url :: "string option"
  expires_at :: string
  environment :: string

text \<open>
  \<open>PaymentEventData\<close>: every field is optional in the source. An absent boolean counts as
  false where the handlers test it, so the booleans are plain.
\<close>

record payment_event =
  pe_success :: bool
  pe_error :: "string option"
  pe_snap_token :: "string option"
  pe_order_id :: "string option"
  pe_transaction_id :: "string option"
  pe_payment_url :: "string option"
  pe_qr_code_url :: "string option"
  pe_expires_at :: "string option"
  pe_environment :: "string option"
  payment_successful :: bool
  payment_failed :: bool

text \<open>
  What the component does to the outside: the call of the \<open>onOpenChange\<close> property, a call
  of \<open>loadSnapScript\<close>, the call \<open>window.snap.pay(token, callbacks)\<close> that shows the
  widget, \<open>socket.checkoutComplete()\<close> that clears the cart, and the waits of the
  automatic opening (in milliseconds).
\<close>

datatype co_effect =
    OnOpenChange bool
  | LoadSnapScript
  | SnapPay string
  | CheckoutComplete
  | Wait nat

text \<open>
  The callbacks handed to \<open>setTimeout\<close> outside the retry chain. None of them is ever
  cleared by the source.
  \<^item> \<open>WidgetSuccessTimer\<close> (3000 ms, in the widget's \<open>onSuccess\<close>):
    \<open>socket.checkoutComplete(); resetPaymentState()\<close>
  \<^item> \<open>ReopenTimer\<close> (500 ms, in \<open>onPending\<close>, \<open>onError\<close>, \<open>onClose\<close>): \<open>onOpenChange(true)\<close>
  \<^item> \<open>GatewaySuccessTimer\<close> (3000 ms, in \<open>handlePaymentStatusUpdate\<close> and
    \<open>handlePaymentCompleted\<close>): \<open>socket.checkoutComplete(); onOpenChange(false); resetPaymentState()\<close>
\<close>

datatype co_timer = WidgetSuccessTimer | ReopenTimer | GatewaySuccessTimer

text \<open>
  The state of the component. \<open>co_open\<close> is the property \<open>open\<close>, which the cart sidebar
  holds as \<open>showCheckout\<close>; \<open>snapScriptLoaded\<close> is the ref of the same name.
\<close>

record checkout =
  co_open :: bool
  paymentStatus :: payment_status
  paymentData :: "payment_data option"
  errorMessage :: string
  timeRemaining :: int
  snapPopupOpen :: bool
  snapScriptLoaded :: bool
  co_timers :: "co_timer list"
  co_trace :: "co_effect list"

definition record_effect :: "co_effect \<Rightarrow> checkout \<Rightarrow> checkout" where
  "record_effect e s = s\<lparr>co_trace := co_trace s @ [e]\<rparr>"

definition setTimeout :: "co_timer \<Rightarrow> checkout \<Rightarrow> checkout" where
  "setTimeout a s = s\<lparr>co_timers := co_timers s @ [a]\<rparr>"

text \<open>The cart sidebar passes \<open>onOpenChange = setShowCheckout\<close> and \<open>open = showCheckout\<close>.\<close>

definition onOpenChange :: "bool \<Rightarrow> checkout \<Rightarrow> checkout" where
  "onOpenChange b s = record_effect (OnOpenChange b) (s\<lparr>co_open := b\<rparr>)"

definition resetPaymentState :: "checkout \<Rightarrow> checkout" where
  "resetPaymentState s =
     s\<lparr>paymentStatus := Idle, paymentData := None, errorMessage := [],
       timeRemaining := 0, snapPopupOpen := False\<rparr>"

text \<open>
  The effect \<open>useEffect(() => { if (!open) resetPaymentState() }, [open])\<close>. After the
  first render it runs only when \<open>open\<close> differs from its value at the previous render,
  which is the first argument.
\<close>

definition resetOnCloseEffect :: "bool \<Rightarrow> checkout \<Rightarrow> checkout" where
  "resetOnCloseEffect prevOpen s =
     (if co_open s = prevOpen then s
      else if \<not> co_open s then resetPaymentState s
      else s)"

subsection \<open>The callbacks of the widget\<close>

text \<open>The same four callbacks are passed to \<open>window.snap.pay\<close> at both call sites.\<close>

definition widgetOnSuccess :: "checkout \<Rightarrow> checkout" where
  "widgetOnSuccess s =
     setTimeout WidgetSuccessTimer (s\<lparr>snapPopupOpen := False, paymentStatus := Success\<rparr>)"

definition widgetOnPending :: "checkout \<Rightarrow> checkout" where
  "widgetOnPending s = setTimeout ReopenTimer (s\<lparr>paymentStatus := Pending\<rparr>)"

definition widgetOnError :: "checkout \<Rightarrow> checkout" where
  "widgetOnError s =
     setTimeout ReopenTimer
       (s\<lparr>snapPopupOpen := False, errorMessage := ''Pembayaran gagal'', paymentStatus := Failed\<rparr>)"

definition widgetOnClose :: "checkout \<Rightarrow> checkout" where
  "widgetOnClose s = setTimeout ReopenTimer (s\<lparr>snapPopupOpen := False\<rparr>)"

fun timerCallback :: "co_timer \<Rightarrow> checkout \<Rightarrow> checkout" where
  "timerCallback WidgetSuccessTimer s = resetPaymentState (record_effect CheckoutComplete s)"
| "timerCallback ReopenTimer s = onOpenChange True s"
| "timerCallback GatewaySuccessTimer s =
     resetPaymentState (onOpenChange False (record_effect CheckoutComplete s))"

text \<open>
  The browser runs an armed callback once. The render that follows flushes the
  reset-on-close effect.
\<close>

definition fireCheckoutTimer :: "co_timer \<Rightarrow> checkout \<Rightarrow> checkout" where
  "fireCheckoutTimer a s =
     (if a \<in> set (co_timers s) then
        resetOnCloseEffect (co_open s) (timerCallback a (s\<lparr>co_timers := remove1 a (co_timers s)\<rparr>))
      else s)"

subsection \<open>Opening the widget\<close>

text \<open>
  What the surroundings decide when an attempt to open the widget runs: whether the
  script element fires \<open>onload\<close> (true) or \<open>onerror\<close> (false), consulted only when
  \<open>snapScriptLoaded.current\<close> is still false; whether \<open>window.snap\<close> is defined after the
  load; and whether the call \<open>window.snap.pay\<close> raises.
\<close>

record attempt_env =
  scriptLoads :: bool
  snapOnWindow :: bool
  payThrows :: bool

text \<open>
  The body of the \<open>try\<close> block of \<open>tryOpenSnap\<close>. The boolean says whether the widget
  was opened; when it is false the source has reached the \<open>else if (attempt < 3)\<close> branch
  or the \<open>catch\<close> block, which both ask for the same retry.
\<close>

definition autoOpenAttempt :: "attempt_env \<Rightarrow> string \<Rightarrow> checkout \<Rightarrow> bool \<times> checkout" where
  "autoOpenAttempt e token s =
     (let s1 = record_effect LoadSnapScript s
      in if \<not> snapScriptLoaded s \<and> \<not> scriptLoads e then (False, s1)
         else
           (let s2 = s1\<lparr>snapScriptLoaded := True\<rparr>
            in if snapOnWindow e then
                 (let s3 = onOpenChange False (s2\<lparr>snapPopupOpen := True\<rparr>)
                  in if payThrows e then (False, s3)
                     else (True, record_effect (SnapPay token) s3))
               else (False, s2)))"

text \<open>
  \<open>tryOpenSnap(attempt)\<close>: wait 800 ms, make one attempt, and after a failed attempt with
  \<open>attempt < 3\<close> call itself with \<open>attempt + 1\<close> from a 1000 ms timer. The chain reads no
  React state, only the ref \<open>snapScriptLoaded\<close>, so its course depends on nothing that
  another handler changes; it is given as one function. The render after each attempt
  flushes the reset-on-close effect. The first argument gives the surroundings of each
  attempt by its number.
\<close>

function tryOpenSnap :: "(nat \<Rightarrow> attempt_env) \<Rightarrow> string \<Rightarrow> nat \<Rightarrow> checkout \<Rightarrow> checkout" where
  "tryOpenSnap env token attempt s =
     (let s1 = record_effect (Wait 800) s
      in if token = [] then s1
         else
           (let r = autoOpenAttempt (env attempt) token s1;
                s2 = resetOnCloseEffect (co_open s1) (snd r)
            in if fst r then s2
               else if attempt < 3 then
                 tryOpenSnap env token (attempt + 1) (record_effect (Wait 1000) s2)
               else s2))"
  by pat_completeness auto
termination
  by (relation "measure (\<lambda>(env, token, attempt, s). 3 - attempt)") auto

declare tryOpenSnap.simps [simp del]

text \<open>
  \<open>handleOpenSnap\<close>, behind the button that opens the widget again. Its \<open>catch\<close> block
  and its \<open>else\<close> branch set the status to failed and do not retry.
\<close>

definition openSnapFailed :: "checkout \<Rightarrow> checkout" where
  "openSnapFailed s =
     s\<lparr>snapPopupOpen := False, errorMessage := ''Gagal membuka halaman pembayaran'',
       paymentStatus := Failed\<rparr>"

definition handleOpenSnap :: "attempt_env \<Rightarrow> checkout \<Rightarrow> checkout" where
  "handleOpenSnap e s =
     (case paymentData s of
        None \<Rightarrow> s
      | Some pd \<Rightarrow>
          if snap_token pd = [] then s
          else if snapPopupOpen s then s
          else
            (let s1 = record_effect LoadSnapScript s
             in if \<not> snapScriptLoaded s \<and> \<not> scriptLoads e then openSnapFailed s1
                else
                  (let s2 = s1\<lparr>snapScriptLoaded := True\<rparr>
                   in if snapOnWindow e then
                        (let s3 = onOpenChange False (s2\<lparr>snapPopupOpen := True\<rparr>)
                         in if payThrows e then openSnapFailed s3
                            else record_effect (SnapPay (snap_token pd)) s3)
                      else s2\<lparr>errorMessage := ''Snap script tidak tersedia'',
                              paymentStatus := Failed\<rparr>)))"

subsection \<open>Events of the gateway\<close>

text \<open>
  \<open>handlePaymentCreated\<close>. \<open>expiresAtMs\<close> is \<open>new Date(data.expires_at).getTime()\<close> and
  \<open>nowMs\<close> is \<open>new Date().getTime()\<close>.
\<close>

definition handlePaymentCreated ::
  "(nat \<Rightarrow> attempt_env) \<Rightarrow> int \<Rightarrow> int \<Rightarrow> payment_event \<Rightarrow> checkout \<Rightarrow> checkout" where
  "handlePaymentCreated env expiresAtMs nowMs d s =
     (if pe_success d \<and> truthy (pe_snap_token d) \<and> truthy (pe_order_id d)
         \<and> truthy (pe_transaction_id d) \<and> truthy (pe_payment_url d)
         \<and> truthy (pe_expires_at d) \<and> truthy (pe_environment d) then
        (let pd = \<lparr>transaction_id = the (pe_transaction_id d), order_id = the (pe_order_id d),
                   snap_token = the (pe_snap_token d), payment_url = the (pe_payment_url d),
                   qr_code_url = pe_qr_code_url d, expires_at = the (pe_expires_at d),
                   environment = the (pe_environment d)\<rparr>;
             remaining = max 0 ((expiresAtMs - nowMs) div 1000);
             s1 = s\<lparr>paymentData := Some pd, paymentStatus := Pending, timeRemaining := remaining\<rparr>
         in tryOpenSnap env (the (pe_snap_token d)) 1 s1)
      else s)"

definition handlePaymentError :: "payment_event \<Rightarrow> checkout \<Rightarrow> checkout" where
  "handlePaymentError d s =
     s\<lparr>errorMessage := (if truthy (pe_error d) then the (pe_error d) else ''Gagal membuat pembayaran''),
       paymentStatus := Failed\<rparr>"

definition handlePaymentStatusUpdate :: "payment_event \<Rightarrow> checkout \<Rightarrow> checkout" where
  "handlePaymentStatusUpdate d s =
     (if payment_successful d then setTimeout GatewaySuccessTimer (s\<lparr>paymentStatus := Success\<rparr>)
      else if payment_failed d then
        s\<lparr>paymentStatus := Failed, errorMessage := ''Pembayaran gagal atau dibatalkan''\<rparr>
      else s)"

definition handlePaymentCompleted :: "payment_event \<Rightarrow> checkout \<Rightarrow> checkout" where
  "handlePaymentCompleted d s = setTimeout GatewaySuccessTimer (s\<lparr>paymentStatus := Success\<rparr>)"

subsection \<open>The countdown\<close>

text \<open>
  The effect with dependency \<open>[timeRemaining]\<close> arms a one second interval only while
  \<open>timeRemaining > 0\<close>; its callback is the updater below. A tick with no interval armed
  does nothing.
\<close>

definition countdownTick :: "checkout \<Rightarrow> checkout" where
  "countdownTick s =
     (if timeRemaining s \<le> 0 then s
      else if timeRemaining s \<le> 1 then
        s\<lparr>paymentStatus := Expired, errorMessage := ''Waktu pembayaran habis'', timeRemaining := 0\<rparr>
      else s\<lparr>timeRemaining := timeRemaining s - 1\<rparr>)"

text \<open>The number of attempts in a trace: every attempt calls \<open>loadSnapScript\<close> once.\<close>

definition attemptsIn :: "co_effect list \<Rightarrow> nat" where
  "attemptsIn tr = length (filter (\<lambda>e. e = LoadSnapScript) tr)"

text \<open>
  The dialog as the page first renders it (closed, nothing pending), a payment_created
  event that carries every field, and surroundings in which the widget opens at once.
\<close>

definition closedDialog :: checkout where
  "closedDialog =
     \<lparr>co_open = False, paymentStatus = Idle, paymentData = None, errorMessage = [],
      timeRemaining = 0, snapPopupOpen = False, snapScriptLoaded = False,
      co_timers = [], co_trace = []\<rparr>"

definition createdEvent :: payment_event where
  "createdEvent =
     \<lparr>pe_success = True, pe_error = None, pe_snap_token = Some ''tok'',
      pe_order_id = Some ''order-1'', pe_transaction_id = Some ''trx-1'',
      pe_payment_url = Some ''https://pay'', pe_qr_code_url = None,
      pe_expires_at = Some ''2025-01-01T00:15:00Z'', pe_environment = Some ''sandbox'',
      payment_successful = False, payment_failed = False\<rparr>"

definition widgetReady :: attempt_env where
  "widgetReady = \<lparr>scriptLoads = True, snapOnWindow = True, payThrows = False\<rparr>"

definition payRaises :: attempt_env where
  "payRaises = \<lparr>scriptLoads = True, snapOnWindow = True, payThrows = True\<rparr>"

definition alwaysReady :: "nat \<Rightarrow> attempt_env" where
  "alwaysReady n = widgetReady"

definition payAlwaysRaises :: "nat \<Rightarrow> attempt_env" where
  "payAlwaysRaises n = payRaises"

text \<open>
  Surroundings in which the script has loaded but \<open>window.snap\<close> is not defined yet at
  the first attempt, and the widget is ready from the second attempt on.
\<close>

definition snapMissing :: attempt_env where
  "snapMissing = \<lparr>scriptLoads = True, snapOnWindow = False, payThrows = False\<rparr>"

definition readyAtSecond :: "nat \<Rightarrow> attempt_env" where
  "readyAtSecond n = (if n = 1 then snapMissing else widgetReady)"

text \<open>
  A payment_created event that reaches the closed dialog (900 seconds before the
  transaction expires) and opens the widget at the first attempt; a pending session shown
  in the open dialog, with the script already loaded; a status update that reports
  success; and a session whose countdown has run from 2 to 0.
\<close>

definition pendingBehindWidget :: checkout where
  "pendingBehindWidget = handlePaymentCreated alwaysReady 900000 0 createdEvent closedDialog"

definition pendingInDialog :: checkout where
  "pendingInDialog =
     \<lparr>co_open = True, paymentStatus = Pending,
      paymentData = Some \<lparr>transaction_id = ''trx-1'', order_id = ''order-1'',
        snap_token = ''tok'', payment_url = ''https://pay'', qr_code_url = None,
        expires_at = ''2025-01-01T00:15:00Z'', environment = ''sandbox''\<rparr>,
      errorMessage = [], timeRemaining = 900, snapPopupOpen = False,
      snapScriptLoaded = True, co_timers = [], co_trace = []\<rparr>"

definition successUpdate :: payment_event where
  "successUpdate = createdEvent\<lparr>payment_successful := True\<rparr>"

definition expiredSession :: checkout where
  "expiredSession = (countdownTick ^^ 2) (pendingInDialog\<lparr>timeRemaining := 2\<rparr>)"

section \<open>Properties of the configuration window\<close>

lemmas cw_defs = handleCameraInitialized_def handleSaveSettings_def handleConfigClose_def
  handleTabChange_def fireTimer_def armInitializationTimeout_def clearTimeout_def
  showNotification_def toggleSimulation_def perform_def handleClose_def openView_def
  openEffect_def handleCameraSelection_def rerender_def saveFlow_def socketCreated_def

lemmas cw_states = stagedView_def DEFAULT_CONFIG_def

lemma commandsOf_append: "commandsOf (xs @ ys) = commandsOf xs @ commandsOf ys"
  by (induction xs rule: commandsOf.induct) simp_all

subsection \<open>Events that arrive after their operation was resolved\<close>

text \<open>
  Whatever the state, the component is quiescent once a camera_initialized event has
  been handled, so a duplicate of the event meets a quiescent component. The same holds
  after the timer of a close or of a tab change has run, when its operation was the only
  one pending.
\<close>

lemma event_leaves_quiescent: "quiescent (handleCameraInitialized d s)"
  by (simp add: quiescent_def cw_defs Let_def split: option.splits)

lemma close_timeout_leaves_quiescent:
  assumes "quiescent s" and "socketPresent s"
    and "selectedCameraId s \<noteq> previousCameraId s"
  shows "quiescent (fireTimer (nextTimerId s) (handleConfigClose s))"
  using assms by (simp add: quiescent_def cw_defs Let_def)

lemma tab_timeout_leaves_quiescent:
  assumes "quiescent s" and "socketPresent s"
    and "selectedCameraId s \<noteq> previousCameraId s"
    and "activeTab s = ''model''" and "newTab \<noteq> ''model''"
  shows "quiescent (fireTimer (nextTimerId s) (handleTabChange newTab s))"
  using assms by (simp add: quiescent_def cw_defs Let_def)

text \<open>
  Claim C1, as amended. When the operation has been resolved (the flags are cleared and
  no timer is recorded), a camera_initialized event that arrives later, or twice, closes
  no view, changes no tab and changes no state variable. It is not silent: the handler
  takes its "normal initialization" branch and shows exactly one notification, the
  success text or the failure text of the event.
\<close>

theorem late_event_only_notifies:
  assumes "quiescent s"
  shows "handleCameraInitialized d s =
           s\<lparr>cw_trace := cw_trace s @
                [ShowNotification (if success d then MsgInitialized (camera_id d)
                                   else MsgInitFailed (ev_error d))]\<rparr>"
  using assms
  by (simp add: quiescent_def handleCameraInitialized_def showNotification_def perform_def Let_def)

theorem late_event_only_notifies_witness:
  "quiescent closeTimedOut \<and>
   handleCameraInitialized lateAck closeTimedOut =
     closeTimedOut\<lparr>cw_trace := cw_trace closeTimedOut @
        [ShowNotification (MsgInitialized (Some 0))]\<rparr>"
proof -
  have q: "quiescent closeTimedOut"
    by (simp add: closeTimedOut_def cw_states quiescent_def cw_defs Let_def)
  from late_event_only_notifies [OF q, of lateAck] q show ?thesis
    by (simp add: lateAck_def)
qed

text \<open>
  The claim as it was stated fails: the restore below was never acknowledged, its timer
  has run and has cleared the flags, and the acknowledgement that arrives afterwards adds
  a notification to the trace.
\<close>

theorem late_event_notifies_counterexample:
  "quiescent closeTimedOut \<and>
   cw_trace closeTimedOut =
     [Emit (InitializeCamera 0), HandleClose, ShowNotification MsgCloseRestoreTimeout] \<and>
   cw_trace (handleCameraInitialized lateAck closeTimedOut) =
     cw_trace closeTimedOut @ [ShowNotification (MsgInitialized (Some 0))]"
  by (simp add: closeTimedOut_def lateAck_def cw_states quiescent_def cw_defs Let_def)

subsection \<open>The timeout of a save\<close>

text \<open>
  The render that follows the one showing the id of a timer clears that timer. A save
  always causes such a render, so 30 seconds after an unacknowledged save no timer is
  left to run: the loading flags stay set.
\<close>

lemma map_of_cleared: "map_of (filter (\<lambda>p. fst p \<noteq> t) xs) t = None"
  by (induction xs) auto

lemma save_flow_clears_its_timer:
  assumes "socketPresent s" and "simulationEnabled (pendingConfig s) = Some b"
  shows "map_of (cw_timers (saveFlow True s)) (nextTimerId s) = None \<and>
         fireTimer (nextTimerId s) (saveFlow True s) = saveFlow True s \<and>
         isClosingModal (saveFlow True s) \<and> isInitializingCamera (saveFlow True s)"
proof -
  have t: "map_of (cw_timers (saveFlow True s)) (nextTimerId s) = None"
    using assms
    by (cases "initializationTimeout s")
       (simp_all add: cw_defs Let_def map_of_cleared split: option.splits)
  have f: "isClosingModal (saveFlow True s) \<and> isInitializingCamera (saveFlow True s)"
    using assms
    by (cases "initializationTimeout s") (simp_all add: cw_defs Let_def split: option.splits)
  from t f show ?thesis by (simp add: fireTimer_def)
qed

text \<open>
  Claim C2, as amended. When the 30 second timer of a save runs, its callback clears the
  two loading flags, which removes the overlay, and shows the notification "Timeout
  menginisialisasi kamera - coba lagi". It does not call the close callback: the view
  stays as it was. The callback does not touch \<open>previousCameraId\<close>.
\<close>

theorem save_timeout_clears_flags_keeps_view:
  assumes "map_of (cw_timers s) t = Some SaveInitTimeout"
  shows "\<not> isClosingModal (fireTimer t s) \<and>
         \<not> isInitializingCamera (fireTimer t s) \<and>
         cw_trace (fireTimer t s) = cw_trace s @ [ShowNotification MsgInitTimeout] \<and>
         viewOpen (fireTimer t s) = viewOpen s \<and>
         previousCameraId (fireTimer t s) = previousCameraId s"
  using assms by (simp add: cw_defs)

theorem save_timeout_clears_flags_keeps_view_witness:
  "map_of (cw_timers (handleSaveSettings True stagedView)) 1 = Some SaveInitTimeout \<and>
   isClosingModal (handleSaveSettings True stagedView) \<and>
   \<not> isClosingModal (fireTimer 1 (handleSaveSettings True stagedView)) \<and>
   \<not> isInitializingCamera (fireTimer 1 (handleSaveSettings True stagedView)) \<and>
   viewOpen (fireTimer 1 (handleSaveSettings True stagedView)) \<and>
   previousCameraId (fireTimer 1 (handleSaveSettings True stagedView)) = 0"
proof -
  have h: "map_of (cw_timers (handleSaveSettings True stagedView)) 1 = Some SaveInitTimeout"
    by (simp add: cw_states cw_defs Let_def)
  have f: "isClosingModal (handleSaveSettings True stagedView)"
    "viewOpen (handleSaveSettings True stagedView)"
    "previousCameraId (handleSaveSettings True stagedView) = 0"
    by (simp_all add: cw_states cw_defs Let_def)
  from save_timeout_clears_flags_keeps_view [OF h] h f show ?thesis by simp
qed

text \<open>
  The claim as it was stated fails: 30 seconds after the unacknowledged save the view is
  still open and the close callback was never called; and the callback would not close
  the view either if it ran right after the handler.
\<close>

theorem save_timeout_closes_view_counterexample:
  "viewOpen saveUnacknowledged \<and> HandleClose \<notin> set (cw_trace saveUnacknowledged) \<and>
   viewOpen (fireTimer 1 (handleSaveSettings True stagedView)) \<and>
   HandleClose \<notin> set (cw_trace (fireTimer 1 (handleSaveSettings True stagedView)))"
  by (simp add: saveUnacknowledged_def cw_states cw_defs Let_def)

subsection \<open>Commands on close and on tab change\<close>

lemma handleConfigClose_commands:
  "commandsOf (cw_trace (handleConfigClose s)) =
     commandsOf (cw_trace s) @
       (if selectedCameraId s \<noteq> previousCameraId s \<and> socketPresent s
        then [InitializeCamera (previousCameraId s)] else [])"
  by (simp add: cw_defs Let_def commandsOf_append)

lemma handleTabChange_commands:
  "commandsOf (cw_trace (handleTabChange newTab s)) =
     commandsOf (cw_trace s) @
       (if activeTab s = ''model'' \<and> newTab \<noteq> ''model''
           \<and> selectedCameraId s \<noteq> previousCameraId s \<and> socketPresent s
        then [InitializeCamera (previousCameraId s)] else [])"
  by (simp add: cw_defs Let_def commandsOf_append)

text \<open>
  Claim C5. When the selected camera equals the previous one, neither closing the view
  nor changing the tab emits a command; a command on the socket after either of them
  means that the selection had diverged.
\<close>

theorem no_divergence_no_command:
  "(selectedCameraId s = previousCameraId s \<longrightarrow>
      commandsOf (cw_trace (handleConfigClose s)) = commandsOf (cw_trace s) \<and>
      commandsOf (cw_trace (handleTabChange newTab s)) = commandsOf (cw_trace s)) \<and>
   (commandsOf (cw_trace (handleConfigClose s)) \<noteq> commandsOf (cw_trace s) \<longrightarrow>
      selectedCameraId s \<noteq> previousCameraId s) \<and>
   (commandsOf (cw_trace (handleTabChange newTab s)) \<noteq> commandsOf (cw_trace s) \<longrightarrow>
      selectedCameraId s \<noteq> previousCameraId s)"
  by (simp add: handleConfigClose_commands handleTabChange_commands)

theorem no_divergence_no_command_witness:
  "selectedCameraId (handleCameraSelection 0 stagedView) =
     previousCameraId (handleCameraSelection 0 stagedView) \<and>
   commandsOf (cw_trace (handleConfigClose (handleCameraSelection 0 stagedView))) = [] \<and>
   commandsOf (cw_trace (handleTabChange ''visual'' (handleCameraSelection 0 stagedView))) = [] \<and>
   commandsOf (cw_trace (handleConfigClose stagedView)) = [InitializeCamera 0] \<and>
   commandsOf (cw_trace (handleTabChange ''visual'' stagedView)) = [InitializeCamera 0] \<and>
   selectedCameraId stagedView \<noteq> previousCameraId stagedView"
proof -
  have e: "selectedCameraId (handleCameraSelection 0 stagedView) =
           previousCameraId (handleCameraSelection 0 stagedView)"
    by (simp add: handleCameraSelection_def cw_states)
  have t: "commandsOf (cw_trace (handleCameraSelection 0 stagedView)) = []"
    by (simp add: handleCameraSelection_def cw_states)
  have c: "commandsOf (cw_trace (handleConfigClose stagedView)) = [InitializeCamera 0]"
    by (simp add: cw_states cw_defs Let_def)
  have c': "commandsOf (cw_trace (handleTabChange ''visual'' stagedView)) = [InitializeCamera 0]"
    by (simp add: cw_states cw_defs Let_def)
  have t0: "commandsOf (cw_trace stagedView) = []" by (simp add: cw_states)
  from no_divergence_no_command [of "handleCameraSelection 0 stagedView" "''visual''"]
       no_divergence_no_command [of stagedView "''visual''"] e t c c' t0
  show ?thesis by simp
qed

subsection \<open>Saving: the store write comes first\<close>

lemma save_trace:
  assumes "simulationEnabled (pendingConfig s) = Some b"
  shows "cw_trace (handleSaveSettings saved s) =
     cw_trace s @ (if socketPresent s then [Emit (ToggleSimulation b)] else []) @
       [SaveConfig ((pendingConfig s)\<lparr>cameraId := Some (selectedCameraId s)\<rparr>)] @
       (if saved then
          [ShowNotification MsgSettingsSaved,
           if socketPresent s then Emit (InitializeCamera (selectedCameraId s))
           else ShowNotification MsgSocketUnavailable]
        else [ShowNotification MsgSaveFailed])"
  using assms by (simp add: cw_defs Let_def)

lemma save_trace_raise:
  assumes "simulationEnabled (pendingConfig s) = None"
  shows "cw_trace (handleSaveSettings saved s) = cw_trace s @ [ShowNotification MsgSaveError]"
  using assms by (simp add: cw_defs Let_def)

lemma save_failure_clears_flags:
  assumes "\<not> saved \<or> simulationEnabled (pendingConfig s) = None"
  shows "\<not> isClosingModal (handleSaveSettings saved s) \<and>
         \<not> isInitializingCamera (handleSaveSettings saved s)"
  using assms by (auto simp add: cw_defs Let_def split: option.splits)

text \<open>
  Claim C6. Every save that reaches the store calls \<open>saveConfig\<close> before any camera
  command; the only command before it is toggle_simulation. What the handler emits after
  the store write is initialize_camera for the selected camera, exactly when the write
  reported success and the socket exists. When the write fails, or the handler raises
  before it, no camera command is emitted, both loading flags are cleared and the last
  effect is the failure notification.
\<close>

theorem save_writes_store_before_camera_command:
  "(simulationEnabled (pendingConfig s) = Some b \<longrightarrow>
      (\<exists>post. cw_trace (handleSaveSettings saved s) =
          cw_trace s @ (if socketPresent s then [Emit (ToggleSimulation b)] else []) @
            [SaveConfig ((pendingConfig s)\<lparr>cameraId := Some (selectedCameraId s)\<rparr>)] @ post
        \<and> commandsOf post =
            (if saved \<and> socketPresent s then [InitializeCamera (selectedCameraId s)] else []))) \<and>
   (\<not> saved \<or> simulationEnabled (pendingConfig s) = None \<longrightarrow>
      cameraCommandsOf (cw_trace (handleSaveSettings saved s)) = cameraCommandsOf (cw_trace s) \<and>
      \<not> isClosingModal (handleSaveSettings saved s) \<and>
      \<not> isInitializingCamera (handleSaveSettings saved s) \<and>
      last (cw_trace (handleSaveSettings saved s)) =
        ShowNotification (if simulationEnabled (pendingConfig s) = None
                          then MsgSaveError else MsgSaveFailed))"
proof (intro conjI impI)
  assume b: "simulationEnabled (pendingConfig s) = Some b"
  show "\<exists>post. cw_trace (handleSaveSettings saved s) =
          cw_trace s @ (if socketPresent s then [Emit (ToggleSimulation b)] else []) @
            [SaveConfig ((pendingConfig s)\<lparr>cameraId := Some (selectedCameraId s)\<rparr>)] @ post
        \<and> commandsOf post =
            (if saved \<and> socketPresent s then [InitializeCamera (selectedCameraId s)] else [])"
    by (rule exI, rule conjI, rule save_trace [OF b]) simp
next
  assume f: "\<not> saved \<or> simulationEnabled (pendingConfig s) = None"
  show "cameraCommandsOf (cw_trace (handleSaveSettings saved s)) = cameraCommandsOf (cw_trace s)"
  proof (cases "simulationEnabled (pendingConfig s)")
    case None
    then show ?thesis
      by (simp add: save_trace_raise cameraCommandsOf_def commandsOf_append)
  next
    case (Some b)
    with f have "\<not> saved" by simp
    with Some show ?thesis
      by (simp add: save_trace cameraCommandsOf_def commandsOf_append)
  qed
  from save_failure_clears_flags [OF f]
  show "\<not> isClosingModal (handleSaveSettings saved s)"
    and "\<not> isInitializingCamera (handleSaveSettings saved s)"
    by simp_all
  show "last (cw_trace (handleSaveSettings saved s)) =
        ShowNotification (if simulationEnabled (pendingConfig s) = None
                          then MsgSaveError else MsgSaveFailed)"
  proof (cases "simulationEnabled (pendingConfig s)")
    case None
    then show ?thesis by (simp add: save_trace_raise)
  next
    case (Some b)
    with f have "\<not> saved" by simp
    with Some show ?thesis by (simp add: save_trace)
  qed
qed

theorem save_writes_store_before_camera_command_witness:
  "simulationEnabled (pendingConfig stagedView) = Some False \<and>
   cameraCommandsOf (cw_trace (handleSaveSettings False stagedView)) = [] \<and>
   \<not> isClosingModal (handleSaveSettings False stagedView) \<and>
   \<not> isInitializingCamera (handleSaveSettings False stagedView) \<and>
   last (cw_trace (handleSaveSettings False stagedView)) = ShowNotification MsgSaveFailed \<and>
   (\<exists>post. cw_trace (handleSaveSettings True stagedView) =
       [Emit (ToggleSimulation False),
        SaveConfig ((pendingConfig stagedView)\<lparr>cameraId := Some 1\<rparr>)] @ post
      \<and> commandsOf post = [InitializeCamera 1])"
proof -
  have b: "simulationEnabled (pendingConfig stagedView) = Some False"
    by (simp add: cw_states)
  have f: "socketPresent stagedView" "selectedCameraId stagedView = 1"
    "cw_trace stagedView = []" "cameraCommandsOf (cw_trace stagedView) = []"
    by (simp_all add: cw_states cameraCommandsOf_def)
  from save_writes_store_before_camera_command [of stagedView False False]
       save_writes_store_before_camera_command [of stagedView False True] b f
  show ?thesis by simp
qed

subsection \<open>Opening the view\<close>

text \<open>
  No handler, timer or render removes the socket object once it exists, so the test
  \<open>if (socket.socket)\<close> around every emit only guards the time before the mount effects
  of useSocket have run.
\<close>

lemma timer_keeps_socket: "socketPresent (fireTimer t s) = socketPresent s"
proof (cases "map_of (cw_timers s) t")
  case None
  then show ?thesis by (simp add: fireTimer_def)
next
  case (Some a)
  then show ?thesis by (cases a) (simp_all add: cw_defs)
qed

lemma socket_is_never_removed:
  "socketPresent (handleCameraInitialized d s) = socketPresent s"
  "socketPresent (handleSaveSettings saved s) = socketPresent s"
  "socketPresent (handleConfigClose s) = socketPresent s"
  "socketPresent (handleTabChange newTab s) = socketPresent s"
  "socketPresent (handleCameraSelection c s) = socketPresent s"
  "socketPresent (openView s) = socketPresent s"
  "socketPresent (rerender shown s) = socketPresent s"
  "socketPresent (socketCreated s)"
  by (simp_all add: cw_defs Let_def split: option.splits)



subsection \<open>Leaving the model tab\<close>

lemma event_keeps_cameras:
  "selectedCameraId (handleCameraInitialized d s) = selectedCameraId s \<and>
   previousCameraId (handleCameraInitialized d s) = previousCameraId s"
  by (simp add: cw_defs Let_def split: option.splits)

lemma timer_keeps_cameras:
  "selectedCameraId (fireTimer t s) = selectedCameraId s \<and>
   previousCameraId (fireTimer t s) = previousCameraId s"
proof (cases "map_of (cw_timers s) t")
  case None
  then show ?thesis by (simp add: fireTimer_def)
next
  case (Some a)
  then show ?thesis by (cases a) (simp_all add: cw_defs)
qed

text \<open>
  Claim C10. A tab change away from the model tab leaves \<open>selectedCameraId\<close> equal to
  \<open>previousCameraId\<close> at once, before anything resolves, and \<open>previousCameraId\<close> is not
  changed; the timer and the camera_initialized event keep both, so the equality holds
  when the tab change completes. With a diverged selection and a socket, the tab stays
  on the model tab until the timer runs or the event arrives, and then becomes the tab
  that was asked for.
\<close>

theorem tab_change_discards_staged_selection:
  assumes "activeTab s = ''model''" and "newTab \<noteq> ''model''"
  shows "selectedCameraId (handleTabChange newTab s) = previousCameraId s \<and>
         previousCameraId (handleTabChange newTab s) = previousCameraId s \<and>
         selectedCameraId (fireTimer t (handleTabChange newTab s)) =
           previousCameraId (fireTimer t (handleTabChange newTab s)) \<and>
         selectedCameraId (handleCameraInitialized d (handleTabChange newTab s)) =
           previousCameraId (handleCameraInitialized d (handleTabChange newTab s)) \<and>
         (selectedCameraId s \<noteq> previousCameraId s \<and> socketPresent s \<longrightarrow>
            activeTab (handleTabChange newTab s) = ''model'' \<and>
            activeTab (fireTimer (nextTimerId s) (handleTabChange newTab s)) = newTab \<and>
            (newTab \<noteq> [] \<and> \<not> isClosingModal s \<longrightarrow>
               activeTab (handleCameraInitialized d (handleTabChange newTab s)) = newTab))"
proof -
  have a: "selectedCameraId (handleTabChange newTab s) = previousCameraId s"
    using assms by (simp add: handleTabChange_def armInitializationTimeout_def perform_def Let_def)
  have b: "previousCameraId (handleTabChange newTab s) = previousCameraId s"
    by (simp add: handleTabChange_def armInitializationTimeout_def perform_def Let_def)
  have c: "selectedCameraId s \<noteq> previousCameraId s \<and> socketPresent s \<longrightarrow>
            activeTab (handleTabChange newTab s) = ''model'' \<and>
            activeTab (fireTimer (nextTimerId s) (handleTabChange newTab s)) = newTab \<and>
            (newTab \<noteq> [] \<and> \<not> isClosingModal s \<longrightarrow>
               activeTab (handleCameraInitialized d (handleTabChange newTab s)) = newTab)"
    using assms by (simp add: cw_defs Let_def)
  from a b c show ?thesis
    by (simp add: event_keeps_cameras timer_keeps_cameras)
qed

theorem tab_change_discards_staged_selection_witness:
  "activeTab stagedView = ''model'' \<and> ''visual'' \<noteq> ''model'' \<and>
   selectedCameraId stagedView = 1 \<and>
   selectedCameraId (handleTabChange ''visual'' stagedView) = 0 \<and>
   previousCameraId (handleTabChange ''visual'' stagedView) = 0 \<and>
   activeTab (handleTabChange ''visual'' stagedView) = ''model'' \<and>
   activeTab (fireTimer 1 (handleTabChange ''visual'' stagedView)) = ''visual'' \<and>
   activeTab (handleCameraInitialized lateAck (handleTabChange ''visual'' stagedView)) = ''visual''"
proof -
  have h1: "activeTab stagedView = ''model''" by (simp add: cw_states)
  have h2: "''visual'' \<noteq> ''model''" by simp
  have f: "selectedCameraId stagedView = 1" "previousCameraId stagedView = 0"
    "socketPresent stagedView" "nextTimerId stagedView = 1" "\<not> isClosingModal stagedView"
    by (simp_all add: cw_states)
  from tab_change_discards_staged_selection [OF h1 h2, of 1 lateAck] h1 f
  show ?thesis by (simp add: lateAck_def)
qed

section \<open>Properties of the checkout dialog\<close>


lemmas co_defs = record_effect_def setTimeout_def onOpenChange_def resetPaymentState_def
  resetOnCloseEffect_def widgetOnSuccess_def widgetOnPending_def widgetOnError_def
  widgetOnClose_def fireCheckoutTimer_def autoOpenAttempt_def openSnapFailed_def
  handleOpenSnap_def handlePaymentStatusUpdate_def handlePaymentCompleted_def
  handlePaymentError_def

lemmas co_states = closedDialog_def createdEvent_def widgetReady_def alwaysReady_def
  pendingInDialog_def

subsection \<open>The widget is dismissed\<close>

text \<open>
  Claim C3. In a session that is pending with the widget flag set, the \<open>onClose\<close>
  callback of the widget leaves the status pending, clears the flag and arms the 500 ms
  timer; when that timer runs it calls \<open>onOpenChange(true)\<close>, the dialog is open again,
  and the status is still pending.
\<close>

theorem widget_close_keeps_pending:
  assumes "paymentStatus s = Pending" and "snapPopupOpen s"
  shows "paymentStatus (widgetOnClose s) = Pending \<and>
         \<not> snapPopupOpen (widgetOnClose s) \<and>
         ReopenTimer \<in> set (co_timers (widgetOnClose s)) \<and>
         co_trace (widgetOnClose s) = co_trace s \<and>
         paymentStatus (fireCheckoutTimer ReopenTimer (widgetOnClose s)) = Pending \<and>
         \<not> snapPopupOpen (fireCheckoutTimer ReopenTimer (widgetOnClose s)) \<and>
         co_open (fireCheckoutTimer ReopenTimer (widgetOnClose s)) \<and>
         co_trace (fireCheckoutTimer ReopenTimer (widgetOnClose s)) =
           co_trace s @ [OnOpenChange True]"
  using assms by (simp add: co_defs)

theorem widget_close_keeps_pending_witness:
  "paymentStatus pendingBehindWidget = Pending \<and> snapPopupOpen pendingBehindWidget \<and>
   paymentStatus (fireCheckoutTimer ReopenTimer (widgetOnClose pendingBehindWidget)) = Pending \<and>
   \<not> snapPopupOpen (fireCheckoutTimer ReopenTimer (widgetOnClose pendingBehindWidget)) \<and>
   co_open (fireCheckoutTimer ReopenTimer (widgetOnClose pendingBehindWidget))"
proof -
  have p: "paymentStatus pendingBehindWidget = Pending"
    by (simp add: pendingBehindWidget_def co_states handlePaymentCreated_def
        tryOpenSnap.simps co_defs Let_def)
  have w: "snapPopupOpen pendingBehindWidget"
    by (simp add: pendingBehindWidget_def co_states handlePaymentCreated_def
        tryOpenSnap.simps co_defs Let_def)
  from widget_close_keeps_pending [OF p w] p w show ?thesis by simp
qed

subsection \<open>Expiry and a late success\<close>

lemma countdown_runs_out:
  "timeRemaining s = int (Suc n) \<Longrightarrow>
     paymentStatus ((countdownTick ^^ Suc n) s) = Expired \<and>
     timeRemaining ((countdownTick ^^ Suc n) s) = 0"
proof (induction n arbitrary: s)
  case 0
  then show ?case by (simp add: countdownTick_def)
next
  case (Suc n)
  have "timeRemaining (countdownTick s) = int (Suc n)"
    using Suc.prems by (simp add: countdownTick_def)
  from Suc.IH [OF this] show ?case
    by (simp only: funpow_Suc_right o_apply)
qed

text \<open>
  Claim C4. A countdown that starts above zero ends, after as many ticks as it had
  seconds, with the status expired and no time left, whatever the status was; the tick
  that takes it from 1 to 0 sets the status to expired on its own. A status update that
  reports success, or a payment_completed event, arms the 3000 ms timer in every state,
  an expired session included, and when the timer runs \<open>socket.checkoutComplete()\<close> is
  called.
\<close>

theorem countdown_expires_and_late_success_clears_cart:
  "(0 < timeRemaining s \<longrightarrow>
      paymentStatus ((countdownTick ^^ nat (timeRemaining s)) s) = Expired \<and>
      timeRemaining ((countdownTick ^^ nat (timeRemaining s)) s) = 0) \<and>
   (timeRemaining s = 1 \<longrightarrow> paymentStatus (countdownTick s) = Expired) \<and>
   (payment_successful d \<longrightarrow>
      paymentStatus (handlePaymentStatusUpdate d s) = Success \<and>
      GatewaySuccessTimer \<in> set (co_timers (handlePaymentStatusUpdate d s)) \<and>
      co_trace (fireCheckoutTimer GatewaySuccessTimer (handlePaymentStatusUpdate d s)) =
        co_trace s @ [CheckoutComplete, OnOpenChange False]) \<and>
   GatewaySuccessTimer \<in> set (co_timers (handlePaymentCompleted d s)) \<and>
   co_trace (fireCheckoutTimer GatewaySuccessTimer (handlePaymentCompleted d s)) =
     co_trace s @ [CheckoutComplete, OnOpenChange False]"
proof (intro conjI impI)
  assume pos: "0 < timeRemaining s"
  then obtain n where n: "nat (timeRemaining s) = Suc n"
    by (cases "nat (timeRemaining s)") auto
  with pos have "timeRemaining s = int (Suc n)" by linarith
  from countdown_runs_out [OF this] n
  show "paymentStatus ((countdownTick ^^ nat (timeRemaining s)) s) = Expired"
    and "timeRemaining ((countdownTick ^^ nat (timeRemaining s)) s) = 0"
    by simp_all
next
  assume "timeRemaining s = 1"
  then show "paymentStatus (countdownTick s) = Expired" by (simp add: countdownTick_def)
next
  assume "payment_successful d"
  then show "paymentStatus (handlePaymentStatusUpdate d s) = Success"
    and "GatewaySuccessTimer \<in> set (co_timers (handlePaymentStatusUpdate d s))"
    and "co_trace (fireCheckoutTimer GatewaySuccessTimer (handlePaymentStatusUpdate d s)) =
        co_trace s @ [CheckoutComplete, OnOpenChange False]"
    by (simp_all add: co_defs)
next
  show "GatewaySuccessTimer \<in> set (co_timers (handlePaymentCompleted d s))"
    and "co_trace (fireCheckoutTimer GatewaySuccessTimer (handlePaymentCompleted d s)) =
     co_trace s @ [CheckoutComplete, OnOpenChange False]"
    by (simp_all add: co_defs)
qed

theorem countdown_expires_and_late_success_clears_cart_witness:
  "(0::int) < 2 \<and> paymentStatus expiredSession = Expired \<and> timeRemaining expiredSession = 0 \<and>
   timeRemaining (pendingInDialog\<lparr>timeRemaining := 1\<rparr>) = 1 \<and>
   paymentStatus (countdownTick (pendingInDialog\<lparr>timeRemaining := 1\<rparr>)) = Expired \<and>
   payment_successful successUpdate \<and>
   co_trace (fireCheckoutTimer GatewaySuccessTimer
               (handlePaymentStatusUpdate successUpdate expiredSession)) =
     [CheckoutComplete, OnOpenChange False]"
proof -
  have t: "timeRemaining (pendingInDialog\<lparr>timeRemaining := 2\<rparr>) = 2" by simp
  have p: "payment_successful successUpdate" by (simp add: successUpdate_def)
  have n: "nat 2 = (2::nat)" by simp
  have tr: "co_trace expiredSession = []"
    by (simp add: expiredSession_def pendingInDialog_def countdownTick_def numeral_2_eq_2)
  from countdown_expires_and_late_success_clears_cart
         [of "pendingInDialog\<lparr>timeRemaining := 2\<rparr>" successUpdate]
       countdown_expires_and_late_success_clears_cart
         [of "pendingInDialog\<lparr>timeRemaining := 1\<rparr>" successUpdate]
       countdown_expires_and_late_success_clears_cart [of expiredSession successUpdate]
       t p n tr
  show ?thesis by (simp add: expiredSession_def)
qed

subsection \<open>The automatic opening is bounded\<close>

lemma reset_effect_trace: "co_trace (resetOnCloseEffect b s) = co_trace s"
  by (simp add: resetOnCloseEffect_def resetPaymentState_def)

lemma attempt_counts_once:
  "attemptsIn (co_trace (snd (autoOpenAttempt e token s))) = Suc (attemptsIn (co_trace s))"
  by (simp add: autoOpenAttempt_def attemptsIn_def record_effect_def onOpenChange_def Let_def)

lemma wait_is_no_attempt:
  "attemptsIn (co_trace (record_effect (Wait ms) s)) = attemptsIn (co_trace s)"
  by (simp add: attemptsIn_def record_effect_def)

text \<open>
  From attempt number \<open>n\<close> on, the chain makes at most \<open>4 - n\<close> attempts, and one attempt
  when \<open>n\<close> is 3 or more. The proof follows the recursion of \<open>tryOpenSnap\<close>.
\<close>

lemma tryOpenSnap_attempts:
  "attemptsIn (co_trace (tryOpenSnap env token n s))
     \<le> attemptsIn (co_trace s) + (if n < 3 then 4 - n else 1)"
proof (induction env token n s rule: tryOpenSnap.induct)
  case (1 env token attempt s)
  let ?s1 = "record_effect (Wait 800) s"
  let ?r = "autoOpenAttempt (env attempt) token ?s1"
  let ?s2 = "resetOnCloseEffect (co_open ?s1) (snd ?r)"
  have one: "attemptsIn (co_trace ?s2) = Suc (attemptsIn (co_trace s))"
    by (simp add: reset_effect_trace attempt_counts_once wait_is_no_attempt)
  show ?case
  proof (cases "token = []")
    case True
    then show ?thesis
      by (subst tryOpenSnap.simps) (simp add: Let_def wait_is_no_attempt)
  next
    case tok: False
    show ?thesis
    proof (cases "fst ?r")
      case True
      with tok one show ?thesis
        by (subst tryOpenSnap.simps) (auto simp add: Let_def)
    next
      case failed: False
      show ?thesis
      proof (cases "attempt < 3")
        case True
        from "1.IH" [OF refl tok refl refl failed True]
        have "attemptsIn (co_trace (tryOpenSnap env token (attempt + 1)
                 (record_effect (Wait 1000) ?s2)))
              \<le> attemptsIn (co_trace (record_effect (Wait 1000) ?s2))
                  + (if attempt + 1 < 3 then 4 - (attempt + 1) else 1)" .
        with one True tok failed show ?thesis
          by (subst tryOpenSnap.simps) (simp add: Let_def wait_is_no_attempt split: if_splits)
      next
        case False
        with tok failed one show ?thesis
          by (subst tryOpenSnap.simps) (simp add: Let_def)
      qed
    qed
  qed
qed

lemma tryOpenSnap_waits:
  "Wait ms \<in> set (co_trace (tryOpenSnap env token n s)) \<Longrightarrow>
     Wait ms \<in> set (co_trace s) \<or> ms = 800 \<or> ms = 1000"
proof (induction env token n s rule: tryOpenSnap.induct)
  case (1 env token attempt s)
  let ?s1 = "record_effect (Wait 800) s"
  let ?r = "autoOpenAttempt (env attempt) token ?s1"
  let ?s2 = "resetOnCloseEffect (co_open ?s1) (snd ?r)"
  have w2: "Wait ms \<in> set (co_trace ?s2) \<Longrightarrow> Wait ms \<in> set (co_trace s) \<or> ms = 800"
    by (auto simp add: reset_effect_trace autoOpenAttempt_def record_effect_def onOpenChange_def
        Let_def split: if_splits)
  show ?case
  proof (cases "token \<noteq> [] \<and> \<not> fst ?r \<and> attempt < 3")
    case True
    then have eq: "tryOpenSnap env token attempt s =
        tryOpenSnap env token (attempt + 1) (record_effect (Wait 1000) ?s2)"
      by (subst tryOpenSnap.simps) (simp add: Let_def)
    from True have t: "token \<noteq> []" and f: "\<not> fst ?r" and a: "attempt < 3" by simp_all
    from "1.IH" [OF refl t refl refl f a] "1.prems" eq
    have "Wait ms \<in> set (co_trace (record_effect (Wait 1000) ?s2)) \<or> ms = 800 \<or> ms = 1000"
      by simp
    then have "Wait ms \<in> set (co_trace ?s2) \<or> ms = 800 \<or> ms = 1000"
      by (auto simp add: record_effect_def)
    with w2 show ?thesis by blast
  next
    case False
    then have "tryOpenSnap env token attempt s = (if token = [] then ?s1 else ?s2)"
      by (subst tryOpenSnap.simps) (auto simp add: Let_def)
    with "1.prems" w2 show ?thesis
      by (auto simp add: record_effect_def split: if_splits)
  qed
qed

text \<open>
  What one attempt does: it opens the widget exactly when the script is or gets loaded,
  \<open>window.snap\<close> is defined and the call \<open>window.snap.pay\<close> returns; and it always starts
  with the call of \<open>loadSnapScript\<close>.
\<close>

lemma attempt_opens_iff:
  "fst (autoOpenAttempt e token s) \<longleftrightarrow>
     (snapScriptLoaded s \<or> scriptLoads e) \<and> snapOnWindow e \<and> \<not> payThrows e"
  by (simp add: autoOpenAttempt_def Let_def)

lemma attempt_trace:
  "co_trace (snd (autoOpenAttempt e token s)) =
     co_trace s @ LoadSnapScript #
       (if (snapScriptLoaded s \<or> scriptLoads e) \<and> snapOnWindow e
        then OnOpenChange False # (if payThrows e then [] else [SnapPay token])
        else [])"
  by (simp add: autoOpenAttempt_def record_effect_def onOpenChange_def Let_def)

text \<open>One step of the chain, in its three cases.\<close>

lemma tryOpenSnap_opened:
  assumes "token \<noteq> []"
    and "fst (autoOpenAttempt (env n) token (record_effect (Wait 800) s))"
  shows "tryOpenSnap env token n s =
           resetOnCloseEffect (co_open s)
             (snd (autoOpenAttempt (env n) token (record_effect (Wait 800) s)))"
  using assms by (subst tryOpenSnap.simps) (simp add: Let_def record_effect_def)

lemma tryOpenSnap_retries:
  assumes "token \<noteq> []"
    and "\<not> fst (autoOpenAttempt (env n) token (record_effect (Wait 800) s))"
    and "n < 3"
  shows "tryOpenSnap env token n s =
           tryOpenSnap env token (n + 1)
             (record_effect (Wait 1000)
                (resetOnCloseEffect (co_open s)
                   (snd (autoOpenAttempt (env n) token (record_effect (Wait 800) s)))))"
  using assms by (subst tryOpenSnap.simps) (simp add: Let_def record_effect_def)

lemma tryOpenSnap_gives_up:
  assumes "token \<noteq> []"
    and "\<not> fst (autoOpenAttempt (env n) token (record_effect (Wait 800) s))"
    and "\<not> n < 3"
  shows "tryOpenSnap env token n s =
           resetOnCloseEffect (co_open s)
             (snd (autoOpenAttempt (env n) token (record_effect (Wait 800) s)))"
  using assms by (subst tryOpenSnap.simps) (simp add: Let_def record_effect_def)

text \<open>The chain only adds to the trace, and it starts with the wait and the first load.\<close>

lemma tryOpenSnap_extends:
  "\<exists>rest. co_trace (tryOpenSnap env token n s) = co_trace s @ rest"
proof (induction env token n s rule: tryOpenSnap.induct)
  case (1 env token attempt s)
  let ?s1 = "record_effect (Wait 800) s"
  let ?r = "autoOpenAttempt (env attempt) token ?s1"
  let ?s2 = "resetOnCloseEffect (co_open ?s1) (snd ?r)"
  have s2: "\<exists>rest. co_trace ?s2 = co_trace s @ rest"
    by (simp add: reset_effect_trace attempt_trace record_effect_def)
  show ?case
  proof (cases "token \<noteq> [] \<and> \<not> fst ?r \<and> attempt < 3")
    case True
    then have t: "token \<noteq> []" and f: "\<not> fst ?r" and a: "attempt < 3" by simp_all
    from "1.IH" [OF refl t refl refl f a] obtain rest where
      "co_trace (tryOpenSnap env token (attempt + 1) (record_effect (Wait 1000) ?s2)) =
         co_trace (record_effect (Wait 1000) ?s2) @ rest" by blast
    moreover from s2 obtain rest2 where "co_trace ?s2 = co_trace s @ rest2" by blast
    moreover have "tryOpenSnap env token attempt s =
        tryOpenSnap env token (attempt + 1) (record_effect (Wait 1000) ?s2)"
      using tryOpenSnap_retries [where env = env and token = token and n = attempt and s = s]
        t f a
      by (simp add: record_effect_def)
    ultimately show ?thesis by (simp add: record_effect_def)
  next
    case False
    then have "tryOpenSnap env token attempt s = (if token = [] then ?s1 else ?s2)"
      by (subst tryOpenSnap.simps) (auto simp add: Let_def)
    with s2 show ?thesis by (auto simp add: record_effect_def)
  qed
qed

lemma tryOpenSnap_starts:
  assumes "token \<noteq> []"
  shows "\<exists>rest. co_trace (tryOpenSnap env token n s) =
                  co_trace s @ Wait 800 # LoadSnapScript # rest"
proof -
  let ?s1 = "record_effect (Wait 800) s"
  let ?r = "autoOpenAttempt (env n) token ?s1"
  let ?s2 = "resetOnCloseEffect (co_open s) (snd ?r)"
  have s2: "\<exists>rest. co_trace ?s2 = co_trace s @ Wait 800 # LoadSnapScript # rest"
    by (simp add: reset_effect_trace attempt_trace record_effect_def)
  show ?thesis
  proof (cases "\<not> fst ?r \<and> n < 3")
    case True
    with assms have eq: "tryOpenSnap env token n s =
        tryOpenSnap env token (n + 1) (record_effect (Wait 1000) ?s2)"
      by (simp add: tryOpenSnap_retries)
    from tryOpenSnap_extends [of env token "n + 1" "record_effect (Wait 1000) ?s2"]
    obtain rest where "co_trace (tryOpenSnap env token (n + 1) (record_effect (Wait 1000) ?s2)) =
        co_trace (record_effect (Wait 1000) ?s2) @ rest" by blast
    moreover from s2 obtain rest2 where
      "co_trace ?s2 = co_trace s @ Wait 800 # LoadSnapScript # rest2" by blast
    ultimately show ?thesis using eq by (simp add: record_effect_def)
  next
    case False
    with assms have "tryOpenSnap env token n s = ?s2"
      by (cases "fst ?r") (simp_all add: tryOpenSnap_opened tryOpenSnap_gives_up)
    with s2 show ?thesis by simp
  qed
qed

text \<open>
  The chain makes \<open>k\<close> attempts with \<open>1 \<le> k\<close>, at most \<open>4 - n\<close> from attempt number \<open>n\<close>
  on; it waits 800 ms \<open>k\<close> times, once before each attempt, and 1000 ms \<open>k - 1\<close> times,
  once between two attempts.
\<close>

lemma tryOpenSnap_counts:
  assumes "token \<noteq> []"
  shows "\<exists>k. 1 \<le> k \<and> k \<le> (if n < 3 then 4 - n else 1) \<and>
     attemptsIn (co_trace (tryOpenSnap env token n s)) = attemptsIn (co_trace s) + k \<and>
     count_list (co_trace (tryOpenSnap env token n s)) (Wait 800) =
       count_list (co_trace s) (Wait 800) + k \<and>
     count_list (co_trace (tryOpenSnap env token n s)) (Wait 1000) =
       count_list (co_trace s) (Wait 1000) + (k - 1)"
  using assms
proof (induction env token n s rule: tryOpenSnap.induct)
  case (1 env token attempt s)
  let ?s1 = "record_effect (Wait 800) s"
  let ?r = "autoOpenAttempt (env attempt) token ?s1"
  let ?s2 = "resetOnCloseEffect (co_open ?s1) (snd ?r)"
  have s1: "co_open ?s1 = co_open s" by (simp add: record_effect_def)
  have a2: "attemptsIn (co_trace ?s2) = attemptsIn (co_trace s) + 1"
    by (simp add: reset_effect_trace attempt_counts_once wait_is_no_attempt)
  have w2: "count_list (co_trace ?s2) (Wait 800) = count_list (co_trace s) (Wait 800) + 1"
    by (simp add: reset_effect_trace attempt_trace record_effect_def)
  have v2: "count_list (co_trace ?s2) (Wait 1000) = count_list (co_trace s) (Wait 1000)"
    by (simp add: reset_effect_trace attempt_trace record_effect_def)
  from "1.prems" have t: "token \<noteq> []" .
  show ?case
  proof (cases "\<not> fst ?r \<and> attempt < 3")
    case True
    then have f: "\<not> fst ?r" and a: "attempt < 3" by simp_all
    let ?s3 = "record_effect (Wait 1000) ?s2"
    from "1.IH" [OF refl t refl refl f a t] obtain k where
      k: "1 \<le> k" "k \<le> (if attempt + 1 < 3 then 4 - (attempt + 1) else 1)"
      and ka: "attemptsIn (co_trace (tryOpenSnap env token (attempt + 1) ?s3)) =
                 attemptsIn (co_trace ?s3) + k"
      and kw: "count_list (co_trace (tryOpenSnap env token (attempt + 1) ?s3)) (Wait 800) =
                 count_list (co_trace ?s3) (Wait 800) + k"
      and kv: "count_list (co_trace (tryOpenSnap env token (attempt + 1) ?s3)) (Wait 1000) =
                 count_list (co_trace ?s3) (Wait 1000) + (k - 1)"
      by blast
    have eq: "tryOpenSnap env token attempt s = tryOpenSnap env token (attempt + 1) ?s3"
      using tryOpenSnap_retries [where env = env and token = token and n = attempt and s = s]
        t f a s1
      by simp
    have a3: "attemptsIn (co_trace ?s3) = attemptsIn (co_trace s) + 1"
      using a2 by (simp add: wait_is_no_attempt)
    have w3: "count_list (co_trace ?s3) (Wait 800) = count_list (co_trace s) (Wait 800) + 1"
      using w2 by (simp add: record_effect_def)
    have v3: "count_list (co_trace ?s3) (Wait 1000) = count_list (co_trace s) (Wait 1000) + 1"
      using v2 by (simp add: record_effect_def)
    have "1 \<le> Suc k" by simp
    moreover have "Suc k \<le> (if attempt < 3 then 4 - attempt else 1)"
      using k a by (simp split: if_splits)
    moreover have "attemptsIn (co_trace (tryOpenSnap env token attempt s)) =
        attemptsIn (co_trace s) + Suc k"
      using eq ka a3 by simp
    moreover have "count_list (co_trace (tryOpenSnap env token attempt s)) (Wait 800) =
        count_list (co_trace s) (Wait 800) + Suc k"
      using eq kw w3 by simp
    moreover have "count_list (co_trace (tryOpenSnap env token attempt s)) (Wait 1000) =
        count_list (co_trace s) (Wait 1000) + (Suc k - 1)"
      using eq kv v3 k by simp
    ultimately show ?thesis by blast
  next
    case False
    with t have eq: "tryOpenSnap env token attempt s = ?s2"
      using s1 by (cases "fst ?r") (simp_all add: tryOpenSnap_opened tryOpenSnap_gives_up)
    have "(1::nat) \<le> 1" by simp
    moreover have "1 \<le> (if attempt < 3 then 4 - attempt else 1)" by auto
    moreover have "attemptsIn (co_trace (tryOpenSnap env token attempt s)) =
        attemptsIn (co_trace s) + 1"
      using eq a2 by simp
    moreover have "count_list (co_trace (tryOpenSnap env token attempt s)) (Wait 800) =
        count_list (co_trace s) (Wait 800) + 1"
      using eq w2 by simp
    moreover have "count_list (co_trace (tryOpenSnap env token attempt s)) (Wait 1000) =
        count_list (co_trace s) (Wait 1000) + (1 - 1)"
      using eq v2 by simp
    ultimately show ?thesis by blast
  qed
qed

text \<open>
  Claim C7, as amended. For every payment_created event the automatic opening makes at
  least one and at most 3 attempts and so always comes to an end. Each attempt starts
  after a wait of 800 ms, and a retry is scheduled 1000 ms after every attempt before the
  third that did not open the widget; no other wait occurs. An attempt that opens the
  widget ends the chain, and so does a third attempt that fails. An attempt opens the
  widget exactly when the script is or gets loaded, \<open>window.snap\<close> is defined and the
  call \<open>window.snap.pay\<close> returns. So a retry is not always one made while the library
  is still loading: an attempt fails when the script does not load, when \<open>window.snap\<close>
  is absent, and also when an exception is raised with the library loaded, by the call
  \<open>window.snap.pay\<close>.
\<close>

theorem auto_open_at_most_three_attempts:
  "attemptsIn (co_trace (tryOpenSnap env token 1 s)) \<le> attemptsIn (co_trace s) + 3 \<and>
   attemptsIn (co_trace (handlePaymentCreated env expiresAtMs nowMs d s))
     \<le> attemptsIn (co_trace s) + 3 \<and>
   (fst (autoOpenAttempt e token s) \<longleftrightarrow>
      (snapScriptLoaded s \<or> scriptLoads e) \<and> snapOnWindow e \<and> \<not> payThrows e) \<and>
   (token \<noteq> [] \<longrightarrow>
      (\<exists>rest. co_trace (tryOpenSnap env token n s) =
                co_trace s @ Wait 800 # LoadSnapScript # rest) \<and>
      (\<exists>k. 1 \<le> k \<and> k \<le> 3 \<and>
         attemptsIn (co_trace (tryOpenSnap env token 1 s)) = attemptsIn (co_trace s) + k \<and>
         count_list (co_trace (tryOpenSnap env token 1 s)) (Wait 800) =
           count_list (co_trace s) (Wait 800) + k \<and>
         count_list (co_trace (tryOpenSnap env token 1 s)) (Wait 1000) =
           count_list (co_trace s) (Wait 1000) + (k - 1)) \<and>
      (fst (autoOpenAttempt (env n) token (record_effect (Wait 800) s)) \<longrightarrow>
         tryOpenSnap env token n s =
           resetOnCloseEffect (co_open s)
             (snd (autoOpenAttempt (env n) token (record_effect (Wait 800) s)))) \<and>
      (\<not> fst (autoOpenAttempt (env n) token (record_effect (Wait 800) s)) \<and> n < 3 \<longrightarrow>
         tryOpenSnap env token n s =
           tryOpenSnap env token (n + 1)
             (record_effect (Wait 1000)
                (resetOnCloseEffect (co_open s)
                   (snd (autoOpenAttempt (env n) token (record_effect (Wait 800) s)))))) \<and>
      (\<not> fst (autoOpenAttempt (env n) token (record_effect (Wait 800) s)) \<and> \<not> n < 3 \<longrightarrow>
         tryOpenSnap env token n s =
           resetOnCloseEffect (co_open s)
             (snd (autoOpenAttempt (env n) token (record_effect (Wait 800) s))))) \<and>
   (\<forall>ms. Wait ms \<in> set (co_trace (tryOpenSnap env token 1 s)) \<longrightarrow>
      Wait ms \<in> set (co_trace s) \<or> ms = 800 \<or> ms = 1000)"
proof (intro conjI allI impI)
  show a: "attemptsIn (co_trace (tryOpenSnap env token 1 s)) \<le> attemptsIn (co_trace s) + 3"
    for token s
    using tryOpenSnap_attempts [of env token 1 s] by simp
  show "attemptsIn (co_trace (handlePaymentCreated env expiresAtMs nowMs d s))
     \<le> attemptsIn (co_trace s) + 3"
  proof -
    have "attemptsIn (co_trace (tryOpenSnap env token 1 s1)) \<le> attemptsIn (co_trace s) + 3"
      if "co_trace s1 = co_trace s" for token s1
      using a [of token s1] that by simp
    then show ?thesis
      by (simp add: handlePaymentCreated_def Let_def)
  qed
  show "fst (autoOpenAttempt e token s) \<longleftrightarrow>
      (snapScriptLoaded s \<or> scriptLoads e) \<and> snapOnWindow e \<and> \<not> payThrows e"
    by (rule attempt_opens_iff)
next
  assume t: "token \<noteq> []"
  show "\<exists>rest. co_trace (tryOpenSnap env token n s) =
                co_trace s @ Wait 800 # LoadSnapScript # rest"
    by (rule tryOpenSnap_starts [OF t])
  show "\<exists>k. 1 \<le> k \<and> k \<le> 3 \<and>
         attemptsIn (co_trace (tryOpenSnap env token 1 s)) = attemptsIn (co_trace s) + k \<and>
         count_list (co_trace (tryOpenSnap env token 1 s)) (Wait 800) =
           count_list (co_trace s) (Wait 800) + k \<and>
         count_list (co_trace (tryOpenSnap env token 1 s)) (Wait 1000) =
           count_list (co_trace s) (Wait 1000) + (k - 1)"
    using tryOpenSnap_counts [OF t, of 1 env s] by simp
next
  assume "token \<noteq> []"
    and "fst (autoOpenAttempt (env n) token (record_effect (Wait 800) s))"
  then show "tryOpenSnap env token n s =
           resetOnCloseEffect (co_open s)
             (snd (autoOpenAttempt (env n) token (record_effect (Wait 800) s)))"
    by (rule tryOpenSnap_opened)
next
  assume "token \<noteq> []"
    and "\<not> fst (autoOpenAttempt (env n) token (record_effect (Wait 800) s)) \<and> n < 3"
  then show "tryOpenSnap env token n s =
           tryOpenSnap env token (n + 1)
             (record_effect (Wait 1000)
                (resetOnCloseEffect (co_open s)
                   (snd (autoOpenAttempt (env n) token (record_effect (Wait 800) s)))))"
    by (simp add: tryOpenSnap_retries)
next
  assume "token \<noteq> []"
    and "\<not> fst (autoOpenAttempt (env n) token (record_effect (Wait 800) s)) \<and> \<not> n < 3"
  then show "tryOpenSnap env token n s =
           resetOnCloseEffect (co_open s)
             (snd (autoOpenAttempt (env n) token (record_effect (Wait 800) s)))"
    by (simp add: tryOpenSnap_gives_up)
next
  fix ms
  assume "Wait ms \<in> set (co_trace (tryOpenSnap env token 1 s))"
  then show "Wait ms \<in> set (co_trace s) \<or> ms = 800 \<or> ms = 1000"
    by (rule tryOpenSnap_waits)
qed

text \<open>
  The witness runs a chain whose first attempt fails because \<open>window.snap\<close> is absent and
  whose second attempt opens the widget: one retry after 1000 ms, two attempts in all.
\<close>

theorem auto_open_at_most_three_attempts_witness:
  "''tok'' \<noteq> [] \<and>
   \<not> fst (autoOpenAttempt (readyAtSecond 1) ''tok'' (record_effect (Wait 800) pendingInDialog)) \<and>
   \<not> snapOnWindow (readyAtSecond 1) \<and> (1::nat) < 3 \<and>
   co_trace (tryOpenSnap readyAtSecond ''tok'' 1 pendingInDialog) =
     [Wait 800, LoadSnapScript, Wait 1000,
      Wait 800, LoadSnapScript, OnOpenChange False, SnapPay ''tok''] \<and>
   attemptsIn (co_trace (tryOpenSnap readyAtSecond ''tok'' 1 pendingInDialog)) = 2 \<and>
   paymentStatus (tryOpenSnap readyAtSecond ''tok'' 1 pendingInDialog) = Idle"
proof -
  let ?s1 = "record_effect (Wait 800) pendingInDialog"
  let ?a1 = "autoOpenAttempt (readyAtSecond 1) ''tok'' ?s1"
  let ?s2 = "record_effect (Wait 1000) (resetOnCloseEffect (co_open pendingInDialog) (snd ?a1))"
  let ?a2 = "autoOpenAttempt (readyAtSecond (1 + 1)) ''tok'' (record_effect (Wait 800) ?s2)"
  have t: "''tok'' \<noteq> []" by simp
  have f1: "\<not> fst ?a1"
    by (simp add: readyAtSecond_def snapMissing_def co_states co_defs Let_def)
  have f2: "fst ?a2"
    by (simp add: readyAtSecond_def snapMissing_def co_states co_defs Let_def)
  from auto_open_at_most_three_attempts [of readyAtSecond "''tok''" pendingInDialog _ _ _ _ 1] t f1
  have step1: "tryOpenSnap readyAtSecond ''tok'' 1 pendingInDialog =
                 tryOpenSnap readyAtSecond ''tok'' (1 + 1) ?s2"
    by simp
  from auto_open_at_most_three_attempts [of readyAtSecond "''tok''" ?s2 _ _ _ _ "1 + 1"] t f2
  have step2: "tryOpenSnap readyAtSecond ''tok'' (1 + 1) ?s2 =
                 resetOnCloseEffect (co_open ?s2) (snd ?a2)"
    by simp
  have val: "co_trace (resetOnCloseEffect (co_open ?s2) (snd ?a2)) =
       [Wait 800, LoadSnapScript, Wait 1000,
        Wait 800, LoadSnapScript, OnOpenChange False, SnapPay ''tok''] \<and>
     paymentStatus (resetOnCloseEffect (co_open ?s2) (snd ?a2)) = Idle"
    by (simp add: readyAtSecond_def snapMissing_def co_states co_defs Let_def)
  have s: "\<not> snapOnWindow (readyAtSecond 1)"
    by (simp add: readyAtSecond_def snapMissing_def)
  from step1 step2 val f1 s show ?thesis
    by (simp add: attemptsIn_def)
qed

text \<open>
  The claim as it was stated fails: in the session below the script is loaded and
  \<open>window.snap\<close> is defined before the first attempt, the call \<open>window.snap.pay\<close> raises
  each time, and the chain retries twice all the same.
\<close>

theorem retry_with_library_loaded_counterexample:
  "snapScriptLoaded pendingInDialog \<and> snapOnWindow (payAlwaysRaises 1) \<and>
   attemptsIn (co_trace (tryOpenSnap payAlwaysRaises ''tok'' 1 pendingInDialog)) = 3 \<and>
   co_trace (tryOpenSnap payAlwaysRaises ''tok'' 1 pendingInDialog) =
     [Wait 800, LoadSnapScript, OnOpenChange False, Wait 1000,
      Wait 800, LoadSnapScript, OnOpenChange False, Wait 1000,
      Wait 800, LoadSnapScript, OnOpenChange False]"
  by (simp add: tryOpenSnap.simps payAlwaysRaises_def payRaises_def co_states co_defs
      Let_def attemptsIn_def)

subsection \<open>Opening the widget closes the dialog and resets the session\<close>

text \<open>
  Claim C8, as amended. Whenever the widget is opened, by an automatic attempt or by the
  button, the source first calls \<open>onOpenChange(false)\<close> and then \<open>window.snap.pay\<close>, and
  the dialog is closed afterwards. When the dialog was open, the effect that follows the
  render resets the session (status idle, no payment data, no time left, widget flag
  false) although no callback of the widget has run. When the dialog was already closed,
  \<open>onOpenChange(false)\<close> is called as well but changes nothing, the effect does not run
  and the session is kept: status, payment data, remaining time and message are as
  before and the widget flag is set.
\<close>

theorem widget_open_from_dialog_resets_session:
  assumes "snapScriptLoaded s \<or> scriptLoads e"
    and "snapOnWindow e" and "\<not> payThrows e"
  shows "fst (autoOpenAttempt e token s) \<and>
         co_trace (snd (autoOpenAttempt e token s)) =
           co_trace s @ [LoadSnapScript, OnOpenChange False, SnapPay token] \<and>
         \<not> co_open (snd (autoOpenAttempt e token s)) \<and>
         (co_open s \<longrightarrow>
            resetOnCloseEffect (co_open s) (snd (autoOpenAttempt e token s)) =
              resetPaymentState (snd (autoOpenAttempt e token s)) \<and>
            paymentStatus (resetOnCloseEffect (co_open s) (snd (autoOpenAttempt e token s))) = Idle \<and>
            paymentData (resetOnCloseEffect (co_open s) (snd (autoOpenAttempt e token s))) = None \<and>
            timeRemaining (resetOnCloseEffect (co_open s) (snd (autoOpenAttempt e token s))) = 0 \<and>
            \<not> snapPopupOpen (resetOnCloseEffect (co_open s) (snd (autoOpenAttempt e token s)))) \<and>
         (\<not> co_open s \<longrightarrow>
            resetOnCloseEffect (co_open s) (snd (autoOpenAttempt e token s)) =
              snd (autoOpenAttempt e token s) \<and>
            paymentStatus (resetOnCloseEffect (co_open s) (snd (autoOpenAttempt e token s))) =
              paymentStatus s \<and>
            paymentData (resetOnCloseEffect (co_open s) (snd (autoOpenAttempt e token s))) =
              paymentData s \<and>
            timeRemaining (resetOnCloseEffect (co_open s) (snd (autoOpenAttempt e token s))) =
              timeRemaining s \<and>
            errorMessage (resetOnCloseEffect (co_open s) (snd (autoOpenAttempt e token s))) =
              errorMessage s \<and>
            snapPopupOpen (resetOnCloseEffect (co_open s) (snd (autoOpenAttempt e token s)))) \<and>
         (paymentData s = Some pd \<and> snap_token pd \<noteq> [] \<and> \<not> snapPopupOpen s \<longrightarrow>
            co_trace (handleOpenSnap e s) =
              co_trace s @ [LoadSnapScript, OnOpenChange False, SnapPay (snap_token pd)] \<and>
            \<not> co_open (handleOpenSnap e s) \<and>
            (co_open s \<longrightarrow>
               resetOnCloseEffect (co_open s) (handleOpenSnap e s) =
                 resetPaymentState (handleOpenSnap e s) \<and>
               paymentStatus (resetOnCloseEffect (co_open s) (handleOpenSnap e s)) = Idle \<and>
               paymentData (resetOnCloseEffect (co_open s) (handleOpenSnap e s)) = None \<and>
               timeRemaining (resetOnCloseEffect (co_open s) (handleOpenSnap e s)) = 0 \<and>
               \<not> snapPopupOpen (resetOnCloseEffect (co_open s) (handleOpenSnap e s))) \<and>
            (\<not> co_open s \<longrightarrow>
               resetOnCloseEffect (co_open s) (handleOpenSnap e s) = handleOpenSnap e s \<and>
               paymentStatus (resetOnCloseEffect (co_open s) (handleOpenSnap e s)) =
                 paymentStatus s \<and>
               paymentData (resetOnCloseEffect (co_open s) (handleOpenSnap e s)) =
                 paymentData s \<and>
               timeRemaining (resetOnCloseEffect (co_open s) (handleOpenSnap e s)) =
                 timeRemaining s \<and>
               errorMessage (resetOnCloseEffect (co_open s) (handleOpenSnap e s)) =
                 errorMessage s \<and>
               snapPopupOpen (resetOnCloseEffect (co_open s) (handleOpenSnap e s))))"
proof -
  have auto_part:
    "fst (autoOpenAttempt e token s) \<and>
     co_trace (snd (autoOpenAttempt e token s)) =
       co_trace s @ [LoadSnapScript, OnOpenChange False, SnapPay token] \<and>
     \<not> co_open (snd (autoOpenAttempt e token s)) \<and>
     paymentStatus (snd (autoOpenAttempt e token s)) = paymentStatus s \<and>
     paymentData (snd (autoOpenAttempt e token s)) = paymentData s \<and>
     timeRemaining (snd (autoOpenAttempt e token s)) = timeRemaining s \<and>
     errorMessage (snd (autoOpenAttempt e token s)) = errorMessage s \<and>
     snapPopupOpen (snd (autoOpenAttempt e token s))"
    using assms by (auto simp add: autoOpenAttempt_def record_effect_def onOpenChange_def Let_def)
  have manual_part:
    "co_trace (handleOpenSnap e s) =
       co_trace s @ [LoadSnapScript, OnOpenChange False, SnapPay (snap_token pd)] \<and>
     \<not> co_open (handleOpenSnap e s) \<and>
     paymentStatus (handleOpenSnap e s) = paymentStatus s \<and>
     paymentData (handleOpenSnap e s) = paymentData s \<and>
     timeRemaining (handleOpenSnap e s) = timeRemaining s \<and>
     errorMessage (handleOpenSnap e s) = errorMessage s \<and>
     snapPopupOpen (handleOpenSnap e s)"
    if "paymentData s = Some pd \<and> snap_token pd \<noteq> [] \<and> \<not> snapPopupOpen s"
    using assms that
    by (auto simp add: handleOpenSnap_def record_effect_def onOpenChange_def Let_def)
  have flush_open: "resetOnCloseEffect True x = resetPaymentState x" if "\<not> co_open x" for x
    using that by (simp add: resetOnCloseEffect_def)
  have flush_closed: "resetOnCloseEffect False x = x" if "\<not> co_open x" for x
    using that by (simp add: resetOnCloseEffect_def)
  show ?thesis
  proof (cases "co_open s")
    case True
    with auto_part manual_part show ?thesis
      by (simp add: flush_open resetPaymentState_def)
  next
    case False
    with auto_part manual_part show ?thesis
      by (simp add: flush_closed)
  qed
qed

text \<open>
  The witness opens the widget with the button from the open dialog, where the session
  is reset, and from the same session behind a closed dialog, where it is kept.
\<close>

theorem widget_open_from_dialog_resets_session_witness:
  "co_open pendingInDialog \<and> snapOnWindow widgetReady \<and> \<not> payThrows widgetReady \<and>
   paymentStatus pendingInDialog = Pending \<and>
   paymentStatus (resetOnCloseEffect True (handleOpenSnap widgetReady pendingInDialog)) = Idle \<and>
   paymentData (resetOnCloseEffect True (handleOpenSnap widgetReady pendingInDialog)) = None \<and>
   timeRemaining (resetOnCloseEffect True (handleOpenSnap widgetReady pendingInDialog)) = 0 \<and>
   \<not> snapPopupOpen (resetOnCloseEffect True (handleOpenSnap widgetReady pendingInDialog)) \<and>
   co_trace (handleOpenSnap widgetReady pendingInDialog) =
     [LoadSnapScript, OnOpenChange False, SnapPay ''tok''] \<and>
   \<not> co_open (pendingInDialog\<lparr>co_open := False\<rparr>) \<and>
   co_trace (handleOpenSnap widgetReady (pendingInDialog\<lparr>co_open := False\<rparr>)) =
     [LoadSnapScript, OnOpenChange False, SnapPay ''tok''] \<and>
   paymentStatus (resetOnCloseEffect False
      (handleOpenSnap widgetReady (pendingInDialog\<lparr>co_open := False\<rparr>))) = Pending \<and>
   timeRemaining (resetOnCloseEffect False
      (handleOpenSnap widgetReady (pendingInDialog\<lparr>co_open := False\<rparr>))) = 900 \<and>
   snapPopupOpen (resetOnCloseEffect False
      (handleOpenSnap widgetReady (pendingInDialog\<lparr>co_open := False\<rparr>)))"
proof -
  let ?c = "pendingInDialog\<lparr>co_open := False\<rparr>"
  have h: "snapScriptLoaded pendingInDialog \<or> scriptLoads widgetReady"
    "snapOnWindow widgetReady" "\<not> payThrows widgetReady"
    by (simp_all add: co_states)
  have h': "snapScriptLoaded ?c \<or> scriptLoads widgetReady"
    by (simp add: co_states)
  have g: "co_open pendingInDialog"
    "paymentData pendingInDialog = Some (the (paymentData pendingInDialog))"
    "snap_token (the (paymentData pendingInDialog)) = ''tok''"
    "\<not> snapPopupOpen pendingInDialog" "paymentStatus pendingInDialog = Pending"
    "timeRemaining pendingInDialog = 900" "co_trace pendingInDialog = []"
    by (simp_all add: co_states)
  have g': "\<not> co_open ?c" "paymentData ?c = Some (the (paymentData pendingInDialog))"
    "\<not> snapPopupOpen ?c" "paymentStatus ?c = Pending" "timeRemaining ?c = 900"
    "co_trace ?c = []"
    by (simp_all add: co_states)
  have in_dialog:
    "paymentStatus (resetOnCloseEffect True (handleOpenSnap widgetReady pendingInDialog)) = Idle \<and>
     paymentData (resetOnCloseEffect True (handleOpenSnap widgetReady pendingInDialog)) = None \<and>
     timeRemaining (resetOnCloseEffect True (handleOpenSnap widgetReady pendingInDialog)) = 0 \<and>
     \<not> snapPopupOpen (resetOnCloseEffect True (handleOpenSnap widgetReady pendingInDialog)) \<and>
     co_trace (handleOpenSnap widgetReady pendingInDialog) =
       [LoadSnapScript, OnOpenChange False, SnapPay ''tok'']"
    using widget_open_from_dialog_resets_session
            [OF h, of "''tok''" "the (paymentData pendingInDialog)"] g
    by (simp add: resetPaymentState_def)
  have behind:
    "co_trace (handleOpenSnap widgetReady ?c) =
       [LoadSnapScript, OnOpenChange False, SnapPay ''tok''] \<and>
     paymentStatus (resetOnCloseEffect False (handleOpenSnap widgetReady ?c)) = Pending \<and>
     timeRemaining (resetOnCloseEffect False (handleOpenSnap widgetReady ?c)) = 900 \<and>
     snapPopupOpen (resetOnCloseEffect False (handleOpenSnap widgetReady ?c))"
    using g g' widget_open_from_dialog_resets_session
            [OF h' h(2) h(3), of "''tok''" "the (paymentData pendingInDialog)"]
    by auto
  from in_dialog behind h g g' show ?thesis by simp
qed

text \<open>
  The claim as it was stated fails: the payment_created event below reaches the dialog
  while it is closed; the widget is opened and \<open>onOpenChange(false)\<close> is called, and the
  session stays pending with its payment data, its 900 seconds and the widget flag set.
\<close>

theorem widget_open_behind_closed_dialog_counterexample:
  "co_trace pendingBehindWidget =
     [Wait 800, LoadSnapScript, OnOpenChange False, SnapPay ''tok''] \<and>
   paymentStatus pendingBehindWidget = Pending \<and>
   paymentData pendingBehindWidget \<noteq> None \<and>
   timeRemaining pendingBehindWidget = 900 \<and>
   snapPopupOpen pendingBehindWidget"
  by (simp add: pendingBehindWidget_def co_states handlePaymentCreated_def
      tryOpenSnap.simps co_defs Let_def)

end
